theory Spec2Isabelle
  imports Main
begin

section \<open>JavaScript values used by the services\<close>

text \<open>
  Strings are lists of characters; a character stands for one code unit below 256.
  An optional property is an \<open>option\<close>: \<open>None\<close> is \<open>undefined\<close> (or absent).

  A JavaScript number is an IEEE 754 double. Where the code only counts (lengths of
  arrays, versions, hours and minutes of the clock) it is modelled as an integer. What
  \<open>parseInt\<close> returns, and what is computed from it, is a \<open>number\<close>: \<open>NaN\<close>, an infinity, or
  a double whose value is an integer. \<open>to_number\<close> is the double nearest to an integer: 53
  significant bits, ties to even, and an infinity from \<open>2 ^ 1024 - 2 ^ 970\<close> on. The sign
  of zero is not kept: no operation here tells \<open>-0\<close> from \<open>0\<close>.
\<close>

datatype number = NaN | Finite int | PlusInfinity | MinusInfinity

function bit_length :: "int \<Rightarrow> nat" where
  "bit_length n = (if n \<le> 0 then 0 else Suc (bit_length (n div 2)))"
  by pat_completeness auto
termination
  by (relation "measure nat") auto

declare bit_length.simps [simp del]

definition round_half_even :: "int \<Rightarrow> int \<Rightarrow> int" where
  \<comment> \<open>the integer nearest to \<open>a / b\<close> for \<open>0 \<le> a\<close> and \<open>0 < b\<close>\<close>
  "round_half_even a b =
     (let q = a div b; r = a mod b
      in if 2 * r < b then q else if 2 * r > b then q + 1 else if even q then q else q + 1)"

definition to_number :: "int \<Rightarrow> number" where
  "to_number n =
     (let a = \<bar>n\<bar>;
          k = int (bit_length a) - 53;
          r = (if k \<le> 0 then a else round_half_even a (2 ^ nat k) * 2 ^ nat k)
      in if 2 ^ 1024 \<le> r then (if n < 0 then MinusInfinity else PlusInfinity)
         else Finite (if n < 0 then - r else r))"

definition truthy :: "string option \<Rightarrow> bool" where
  \<comment> \<open>a string-valued property in a condition: \<open>undefined\<close> and \<open>""\<close> are falsy\<close>
  "truthy s = (case s of None \<Rightarrow> False | Some v \<Rightarrow> v \<noteq> [])"

definition is_space :: "char \<Rightarrow> bool" where
  \<comment> \<open>the white space of \<open>trim\<close> and \<open>parseInt\<close> among the code units below 256\<close>
  "is_space c = (of_char c \<in> {9, 10, 11, 12, 13, 32, 160 :: nat})"

definition is_digit :: "char \<Rightarrow> bool" where
  "is_digit c = (48 \<le> (of_char c :: nat) \<and> (of_char c :: nat) \<le> 57)"

definition digit_value :: "char \<Rightarrow> int" where
  "digit_value c = int (of_char c) - 48"

definition trim :: "string \<Rightarrow> string" where
  "trim s = rev (dropWhile is_space (rev (dropWhile is_space s)))"

fun split_on :: "char \<Rightarrow> string \<Rightarrow> string list" where
  \<comment> \<open>\<open>s.split(c)\<close> for a one-character separator\<close>
  "split_on c [] = [[]]"
| "split_on c (x # xs) =
     (if x = c then [] # split_on c xs
      else (case split_on c xs of [] \<Rightarrow> [[x]] | p # ps \<Rightarrow> (x # p) # ps))"

definition parseInt :: "string \<Rightarrow> number" where
  \<comment> \<open>\<open>parseInt(s, 10)\<close>: leading white space, an optional sign, the longest run of
      decimal digits, whose value is rounded to a double; \<open>NaN\<close> when there is no digit\<close>
  "parseInt s =
     (let s1 = dropWhile is_space s;
          sgn = (case s1 of [] \<Rightarrow> 1 | c # _ \<Rightarrow> if c = CHR ''-'' then - 1 else (1 :: int));
          s2 = (case s1 of [] \<Rightarrow> [] | c # r \<Rightarrow> if c = CHR ''-'' \<or> c = CHR ''+'' then r else s1);
          ds = takeWhile is_digit s2
      in if ds = [] then NaN
         else to_number (sgn * foldl (\<lambda>a c. 10 * a + digit_value c) 0 ds))"

fun js_add :: "number \<Rightarrow> number \<Rightarrow> number" where
  \<comment> \<open>\<open>a + b\<close>: the exact sum, rounded\<close>
  "js_add NaN b = NaN"
| "js_add a NaN = NaN"
| "js_add (Finite x) (Finite y) = to_number (x + y)"
| "js_add (Finite x) b = b"
| "js_add a (Finite y) = a"
| "js_add a b = (if a = b then a else NaN)"

fun js_mul :: "number \<Rightarrow> number \<Rightarrow> number" where
  \<comment> \<open>\<open>a * b\<close>: the exact product, rounded; zero times an infinity is \<open>NaN\<close>\<close>
  "js_mul NaN b = NaN"
| "js_mul a NaN = NaN"
| "js_mul (Finite x) (Finite y) = to_number (x * y)"
| "js_mul (Finite x) b =
     (if x = 0 then NaN else if (0 < x) = (b = PlusInfinity) then PlusInfinity else MinusInfinity)"
| "js_mul a (Finite y) =
     (if y = 0 then NaN else if (0 < y) = (a = PlusInfinity) then PlusInfinity else MinusInfinity)"
| "js_mul a b = (if a = b then PlusInfinity else MinusInfinity)"

fun js_le :: "number \<Rightarrow> number \<Rightarrow> bool" where
  \<comment> \<open>\<open>a <= b\<close>: false as soon as one side is \<open>NaN\<close>\<close>
  "js_le NaN b = False"
| "js_le a NaN = False"
| "js_le (Finite x) (Finite y) = (x \<le> y)"
| "js_le MinusInfinity b = True"
| "js_le a PlusInfinity = True"
| "js_le a b = False"

definition js_ge :: "number \<Rightarrow> number \<Rightarrow> bool" where
  "js_ge a b = js_le b a"

section \<open>Notification preferences and quiet hours\<close>

record notification_categories =
  cat_todo :: bool
  cat_project :: bool
  cat_note :: bool
  cat_system :: bool

record notification_priorities =
  prio_low :: bool
  prio_medium :: bool
  prio_high :: bool

record notification_preference =
  enabled :: bool
  channels :: "string list"
  quietHoursStart :: "string option"
  quietHoursEnd :: "string option"
  categories :: notification_categories
  priorities :: notification_priorities

definition isInQuietHours :: "notification_preference \<Rightarrow> nat \<Rightarrow> nat \<Rightarrow> bool" where
  \<comment> \<open>\<open>NotificationService.isInQuietHours\<close>; \<open>currentHour\<close> and \<open>currentMinute\<close> are
      \<open>now.getHours()\<close> and \<open>now.getMinutes()\<close>, whose combination is exact\<close>
  "isInQuietHours preferences currentHour currentMinute =
     (if \<not> truthy (quietHoursStart preferences) \<or> \<not> truthy (quietHoursEnd preferences) then False
      else
        let startParts = split_on CHR '':'' (the (quietHoursStart preferences));
            endParts = split_on CHR '':'' (the (quietHoursEnd preferences))
        in if length startParts \<noteq> 2 \<or> length endParts \<noteq> 2 then False
           else
             let startHour = parseInt (startParts ! 0);
                 startMinute = parseInt (startParts ! 1);
                 endHour = parseInt (endParts ! 0);
                 endMinute = parseInt (endParts ! 1);
                 nowMinutes = Finite (int currentHour * 60 + int currentMinute);
                 startMinutes = js_add (js_mul startHour (Finite 60)) startMinute;
                 endMinutes = js_add (js_mul endHour (Finite 60)) endMinute
             in if js_le startMinutes endMinutes
                then js_ge nowMinutes startMinutes \<and> js_le nowMinutes endMinutes
                else js_ge nowMinutes startMinutes \<or> js_le nowMinutes endMinutes)"

section \<open>The entities (\<open>types/index.ts\<close>)\<close>

text \<open>
  One record per interface. Field names carry a prefix because several interfaces share
  property names. \<open>status\<close>, \<open>priority\<close> and the other string-literal unions are
  strings, as they are at run time: the validators check them against the allowed values.
\<close>

record sub_task =
  st_id :: string
  st_title :: string
  st_completed :: bool
  st_createdAt :: string
  st_completedAt :: "string option"

record todo_image =
  ti_id :: string
  ti_url :: string
  ti_thumbnail :: "string option"
  ti_name :: string
  ti_type :: string
  ti_size :: int
  ti_createdAt :: string

record todo =
  t_id :: string
  t_title :: string
  t_description :: "string option"
  t_status :: string
  t_priority :: string
  t_dueDate :: "string option"
  t_createdAt :: string
  t_updatedAt :: string
  t_projectId :: "string option"
  t_images :: "todo_image list option"
  t_tags :: "string list option"
  t_subtasks :: "sub_task list option"
  t_progress :: "int option"
  t_startDate :: "string option"
  t_completedAt :: "string option"
  t_category :: "string option"
  t_dependsOn :: "string list option"

record milestone =
  m_id :: string
  m_title :: string
  m_description :: "string option"
  m_dueDate :: string
  m_completed :: bool
  m_completedAt :: "string option"
  m_todoIds :: "string list"
  m_createdAt :: string
  m_updatedAt :: string

record project_resource =
  pr_id :: string
  pr_name :: string
  pr_type :: string
  pr_url :: string
  pr_createdAt :: string
  pr_updatedAt :: string

record project_risk =
  rk_id :: string
  rk_title :: string
  rk_description :: "string option"
  rk_impact :: string
  rk_probability :: string
  rk_status :: string
  rk_createdAt :: string
  rk_updatedAt :: string

record project =
  p_id :: string
  p_name :: string
  p_description :: "string option"
  p_status :: string
  p_createdAt :: string
  p_updatedAt :: string
  p_startDate :: "string option"
  p_dueDate :: "string option"
  p_completedAt :: "string option"
  p_color :: "string option"
  p_progress :: int
  p_todoIds :: "string list"
  p_milestones :: "milestone list"
  p_resources :: "project_resource list option"
  p_tags :: "string list option"
  p_owner :: "string option"
  p_risks :: "project_risk list option"
  p_velocity :: "int option"
  p_timeSpent :: "int option"

record note_image =
  ni_id :: string
  ni_url :: string
  ni_thumbnail :: "string option"
  ni_name :: string
  ni_type :: string
  ni_size :: int
  ni_createdAt :: string

record note_t =
  n_id :: string
  n_title :: string
  n_content :: string
  n_createdAt :: string
  n_updatedAt :: string
  n_images :: "note_image list option"
  n_projectId :: "string option"
  n_todoId :: "string option"
  n_tags :: "string list option"
  n_folder :: "string option"
  n_isFavorite :: "bool option"
  n_lastEditedAt :: string
  n_contentType :: string
  n_relatedNotes :: "string list option"
  n_relatedTodos :: "string list option"
  n_version :: "int option"
  n_collaborators :: "string list option"
  n_color :: "string option"

record note_version =
  nv_id :: string
  nv_noteId :: string
  nv_content :: string
  nv_timestamp :: string
  nv_author :: "string option"

record notification_action =
  na_id :: string
  na_label :: string
  na_action :: string
  na_url :: "string option"
  na_payload :: "(string \<times> string) list option"

record notification_data =
  nd_id :: string
  nd_title :: string
  nd_message :: string
  nd_type :: string
  nd_timestamp :: string
  nd_read :: bool
  nd_todoId :: "string option"
  nd_projectId :: "string option"
  nd_noteId :: "string option"
  nd_priority :: string
  nd_actions :: "notification_action list option"
  nd_expiresAt :: "string option"
  nd_category :: "string option"
  nd_source :: "string option"

text \<open>
  What the storage holds is JSON. The typed records stand for their JSON objects (an
  optional property that is \<open>None\<close> is absent from the object), so that
  \<open>JSON.stringify\<close> followed by \<open>JSON.parse\<close> is the identity on these values.
\<close>

datatype json =
    JNull
  | JBool bool
  | JNum int
  | JStr string
  | JArr "json list"
  | JObj "(string \<times> json) list"
  | JTodo todo
  | JProject project
  | JNote note_t
  | JVersion note_version
  | JNotification notification_data

section \<open>The world of the client\<close>

text \<open>
  Everything the services touch is one explicit state: the configuration of the storage
  service, the network, the files of the server (\<open>app/api/storage/[entity]/route.ts\<close>),
  the browser's \<open>localStorage\<close>, the toasts shown so far, the clock and the supply of
  identifiers. A thrown exception is the \<open>Inl\<close> of a result; an operation that can both
  throw and change the state returns its result together with the state it leaves.

  The clock is a sequence of readings: every \<open>new Date()\<close> takes the next one, so two
  reads in one operation need not agree. \<open>generateId\<close> (\<open>lib/utils\<close>) and \<open>uuidv4\<close>
  are not part of the sources; they are the supply \<open>idSupply\<close>, about which nothing is
  assumed. \<open>parseDate\<close> is the engine's \<open>Date\<close> parser (the time value of
  \<open>new Date(s)\<close>, \<open>None\<close> for an invalid date).

  \<open>localStorage.setItem\<close> can throw (the quota is exceeded, or the browser denies the
  storage): \<open>refuses\<close> tells, for the items that are stored, a key and a value, whether it
  does. Nothing is assumed about it, so it stands for every quota.
\<close>

datatype error = Error string | TypeError string | SyntaxError string | DOMException string

datatype network = Online | Offline | Status nat
  \<comment> \<open>the server answers; \<open>fetch\<close> rejects; every request is answered with this status
      and a body that is not JSON\<close>

datatype raw = Text json | Junk string
  \<comment> \<open>an item of \<open>localStorage\<close>: the JSON text of a value, or a string that is not JSON\<close>

datatype toast = Toast string string string
  \<comment> \<open>title, description, variant\<close>

datatype response = Response nat "json option"
  \<comment> \<open>status, and the body when it is JSON\<close>

datatype 'a flow = Return 'a | Throw error | Next

record storage_config =
  useServerStorage :: bool
  apiBasePath :: string
  fallbackToLocalStorage :: bool

record world =
  isClient :: bool
  config :: storage_config
  net :: network
  serverFiles :: "string \<rightharpoonup> json"
  localStorage :: "string \<rightharpoonup> raw"
  refuses :: "(string \<rightharpoonup> raw) \<Rightarrow> string \<Rightarrow> raw \<Rightarrow> bool"
  toasts :: "toast list"
  clock :: "nat \<Rightarrow> string"
  ticks :: nat
  idSupply :: "nat \<Rightarrow> string"
  idCount :: nat
  parseDate :: "string \<Rightarrow> int option"

definition newDate :: "world \<Rightarrow> string \<times> world" where
  \<comment> \<open>\<open>new Date().toISOString()\<close>\<close>
  "newDate w = (clock w (ticks w), w\<lparr>ticks := Suc (ticks w)\<rparr>)"

definition generateId :: "world \<Rightarrow> string \<times> world" where
  \<comment> \<open>\<open>generateId()\<close> and \<open>uuidv4()\<close>\<close>
  "generateId w = (idSupply w (idCount w), w\<lparr>idCount := Suc (idCount w)\<rparr>)"

fun show_nat :: "nat \<Rightarrow> string" where
  "show_nat n = (if n < 10 then [char_of (48 + n)] else show_nat (n div 10) @ [char_of (48 + n mod 10)])"

declare show_nat.simps [simp del]

section \<open>The server route (\<open>app/api/storage/[entity]/route.ts\<close>)\<close>

definition entity_char :: "char \<Rightarrow> bool" where
  \<comment> \<open>the class \<open>[a-zA-Z0-9_-]\<close> of the sanitiser\<close>
  "entity_char c =
     (let n = (of_char c :: nat)
      in (97 \<le> n \<and> n \<le> 122) \<or> (65 \<le> n \<and> n \<le> 90) \<or> (48 \<le> n \<and> n \<le> 57) \<or> n = 95 \<or> n = 45)"

definition sanitizedEntity :: "string \<Rightarrow> string" where
  "sanitizedEntity entity = filter entity_char entity"

definition readData :: "world \<Rightarrow> string \<Rightarrow> json option" where
  \<comment> \<open>\<open>readData(entity)\<close>: the parsed file \<open>data.json\<close> of the entity, \<open>null\<close> (here
      \<open>None\<close>) when there is no file; a file that holds \<open>null\<close> gives \<open>null\<close> as well\<close>
  "readData w entity =
     (case serverFiles w entity of
        None \<Rightarrow> None
      | Some d \<Rightarrow> if d = JNull then None else Some d)"

definition GET :: "world \<Rightarrow> string \<Rightarrow> response" where
  \<comment> \<open>the handler without query parameters: \<open>operation\<close> is \<open>read\<close>, the file \<open>data.json\<close>\<close>
  "GET w entity =
     (if sanitizedEntity entity \<noteq> entity
      then Response 400 (Some (JObj [(''error'', JStr ''Invalid entity name'')]))
      else (case readData w entity of
              None \<Rightarrow> Response 404 (Some (JObj [(''error'', JStr (''No data found for '' @ entity))]))
            | Some d \<Rightarrow> Response 200 (Some d)))"

definition POST :: "world \<Rightarrow> string \<Rightarrow> json \<Rightarrow> response \<times> world" where
  \<comment> \<open>the handler without query parameters: \<open>operation\<close> is \<open>write\<close>. The file is
      written; a server whose disk fails answers 500, which is the network \<open>Status 500\<close>\<close>
  "POST w entity d =
     (if sanitizedEntity entity \<noteq> entity
      then (Response 400 (Some (JObj [(''error'', JStr ''Invalid entity name'')])), w)
      else (Response 200 (Some (JObj [(''success'', JBool True)])),
            w\<lparr>serverFiles := (serverFiles w)(entity \<mapsto> d)\<rparr>))"

definition routed :: "world \<Rightarrow> string \<Rightarrow> string option \<Rightarrow> bool" where
  \<comment> \<open>the URL \<open>apiBasePath/entity[/filename]\<close> addresses the route: the entity is one path
      segment under \<open>/api/storage\<close> and no file name follows\<close>
  "routed w entity filename =
     (apiBasePath (config w) = ''/api/storage'' \<and> entity \<noteq> [] \<and> \<not> truthy filename)"

definition fetch_get :: "world \<Rightarrow> string \<Rightarrow> string option \<Rightarrow> error + response" where
  "fetch_get w entity filename =
     (case net w of
        Offline \<Rightarrow> Inl (TypeError ''Failed to fetch'')
      | Status n \<Rightarrow> Inr (Response n None)
      | Online \<Rightarrow> if routed w entity filename then Inr (GET w entity) else Inr (Response 404 None))"

definition fetch_post :: "world \<Rightarrow> string \<Rightarrow> string option \<Rightarrow> json \<Rightarrow> (error + response) \<times> world" where
  "fetch_post w entity filename d =
     (case net w of
        Offline \<Rightarrow> (Inl (TypeError ''Failed to fetch''), w)
      | Status n \<Rightarrow> (Inr (Response n None), w)
      | Online \<Rightarrow>
          if routed w entity filename
          then (case POST w entity d of (r, w') \<Rightarrow> (Inr r, w'))
          else (Inr (Response 404 None), w))"

definition response_ok :: "nat \<Rightarrow> bool" where
  "response_ok st = (200 \<le> st \<and> st \<le> 299)"

section \<open>The storage service (\<open>services/storage/storageService.ts\<close>)\<close>

definition basePath :: "world \<Rightarrow> string" where
  "basePath w = (if isClient w then ''taskflow_data'' else [])"

definition getStorageKey :: "world \<Rightarrow> string \<Rightarrow> string option \<Rightarrow> string" where
  "getStorageKey w entity filename =
     (if entity = ''metadata'' then basePath w @ ''_metadata''
      else
        let entityKey = basePath w @ ''_'' @ entity
        in if truthy filename then entityKey @ ''_'' @ the filename else entityKey)"

definition defaultSettings :: json where
  "defaultSettings =
     JObj [(''theme'', JStr ''system''), (''notifications'', JBool True), (''completionGoal'', JNum 5),
           (''workingHours'', JObj [(''start'', JStr ''09:00''), (''end'', JStr ''17:00'')]),
           (''useServerStorage'', JBool True)]"

definition defaultNotificationPreferences :: json where
  "defaultNotificationPreferences =
     JObj [(''enabled'', JBool True), (''channels'', JArr [JStr ''browser'']),
           (''categories'', JObj [(''todo'', JBool True), (''project'', JBool True),
                                  (''note'', JBool True), (''system'', JBool True)]),
           (''priorities'', JObj [(''low'', JBool True), (''medium'', JBool True), (''high'', JBool True)])]"

definition getEmptyDataByEntityType :: "string \<Rightarrow> json" where
  "getEmptyDataByEntityType entity =
     (if entity = ''todos'' \<or> entity = ''projects'' \<or> entity = ''notes'' \<or> entity = ''notifications''
      then JArr []
      else if entity = ''settings'' then defaultSettings
      else if entity = ''notification_preferences'' then defaultNotificationPreferences
      else JObj [])"

definition read_server :: "world \<Rightarrow> string \<Rightarrow> string option \<Rightarrow> json flow" where
  \<comment> \<open>the inner \<open>try\<close> of \<open>read\<close>: return, rethrow, or go on to \<open>localStorage\<close>\<close>
  "read_server w entity filename =
     (case (case fetch_get w entity filename of
              Inl e \<Rightarrow> Inl e
            | Inr (Response st body) \<Rightarrow>
                if response_ok st
                then (case body of
                        None \<Rightarrow> Inl (SyntaxError ''Unexpected token in JSON'')
                      | Some d \<Rightarrow> Inr d)
                else if st = 404 then Inr (getEmptyDataByEntityType entity)
                else Inl (Error (''Server returned status '' @ show_nat st)))
      of Inr d \<Rightarrow> Return d
       | Inl e \<Rightarrow> if \<not> fallbackToLocalStorage (config w) then Throw e else Next)"

definition read_local :: "world \<Rightarrow> string \<Rightarrow> string option \<Rightarrow> error + json" where
  "read_local w entity filename =
     (case localStorage w (getStorageKey w entity filename) of
        None \<Rightarrow> Inr (getEmptyDataByEntityType entity)
      | Some (Junk s) \<Rightarrow>
          if s = [] then Inr (getEmptyDataByEntityType entity)
          else Inl (SyntaxError ''Unexpected token in JSON'')
      | Some (Text d) \<Rightarrow> Inr d)"

definition read :: "world \<Rightarrow> string \<Rightarrow> string option \<Rightarrow> error + json" where
  "read w entity filename =
     (case (if \<not> isClient w then Inr (getEmptyDataByEntityType entity)
            else (case (if useServerStorage (config w) then read_server w entity filename else Next) of
                    Return d \<Rightarrow> Inr d
                  | Throw e \<Rightarrow> Inl e
                  | Next \<Rightarrow> read_local w entity filename))
      of Inl e \<Rightarrow> Inr (getEmptyDataByEntityType entity)
       | Inr d \<Rightarrow> Inr d)"

definition storageWarning :: toast where
  "storageWarning =
     Toast ''Storage Warning'' ''Could not save to server. Data saved locally only.'' ''warning''"

definition write_server :: "world \<Rightarrow> string \<Rightarrow> json \<Rightarrow> string option \<Rightarrow> (error + bool) \<times> world" where
  \<comment> \<open>the inner \<open>try\<close> of \<open>write\<close>; the result is \<open>serverWriteSuccessful\<close>\<close>
  "write_server w entity d filename =
     (case fetch_post w entity filename d of
        (r, w1) \<Rightarrow>
          (case (case r of
                   Inl e \<Rightarrow> Inl e
                 | Inr (Response st body) \<Rightarrow>
                     if response_ok st then Inr True
                     else Inl (Error (''Server returned status '' @ show_nat st)))
           of Inr b \<Rightarrow> (Inr b, w1)
            | Inl e \<Rightarrow>
                let w2 = w1\<lparr>toasts := toasts w1 @ [storageWarning]\<rparr>
                in if \<not> fallbackToLocalStorage (config w) then (Inl e, w2) else (Inr False, w2)))"

definition raw_truthy :: "raw option \<Rightarrow> bool" where
  \<comment> \<open>\<open>getItem\<close> gave a non-empty string\<close>
  "raw_truthy r = (case r of None \<Rightarrow> False | Some (Text d) \<Rightarrow> True | Some (Junk s) \<Rightarrow> s \<noteq> [])"

definition setItem :: "world \<Rightarrow> string \<Rightarrow> raw \<Rightarrow> (error + unit) \<times> world" where
  \<comment> \<open>\<open>localStorage.setItem(key, value)\<close>: the item is stored, or nothing is and it throws\<close>
  "setItem w key v =
     (if refuses w (localStorage w) key v then (Inl (DOMException ''QuotaExceededError''), w)
      else (Inr (), w\<lparr>localStorage := (localStorage w)(key \<mapsto> v)\<rparr>))"

definition write_local :: "world \<Rightarrow> string \<Rightarrow> json \<Rightarrow> string option \<Rightarrow> (error + unit) \<times> world" where
  \<comment> \<open>the block that writes to \<open>localStorage\<close>: the backup of the value that is there, then
      the data; either \<open>setItem\<close> can throw\<close>
  "write_local w entity d filename =
     (let storageKey = getStorageKey w entity filename;
          existingData = localStorage w storageKey
      in case (if raw_truthy existingData
               then setItem w (storageKey @ ''_backup'') (the existingData)
               else (Inr (), w)) of
           (Inl e, w1) \<Rightarrow> (Inl e, w1)
         | (Inr u, w1) \<Rightarrow> setItem w1 storageKey (Text d))"

definition write_core :: "world \<Rightarrow> string \<Rightarrow> json \<Rightarrow> string option \<Rightarrow> (error + unit) \<times> world" where
  \<comment> \<open>the body of \<open>write\<close> up to, and without, the update of the metadata\<close>
  "write_core w entity d filename =
     (if \<not> isClient w then (Inr (), w)
      else
        (case (if useServerStorage (config w) then write_server w entity d filename
               else (Inr False, w)) of
           (Inl e, w1) \<Rightarrow> (Inl (Error (''Failed to save '' @ entity @ '' data'')), w1)
         | (Inr serverWriteSuccessful, w1) \<Rightarrow>
             if \<not> serverWriteSuccessful \<and>
                (fallbackToLocalStorage (config w) \<or> \<not> useServerStorage (config w))
             then (case write_local w1 entity d filename of
                     (Inl e, w2) \<Rightarrow> (Inl (Error (''Failed to save '' @ entity @ '' data'')), w2)
                   | (Inr u, w2) \<Rightarrow> (Inr (), w2))
             else (Inr (), w1)))"

fun set_prop :: "string \<Rightarrow> json \<Rightarrow> (string \<times> json) list \<Rightarrow> (string \<times> json) list" where
  \<comment> \<open>\<open>obj[k] = v\<close> on the properties of an object, in insertion order\<close>
  "set_prop k v [] = [(k, v)]"
| "set_prop k v ((k', v') # kvs) = (if k' = k then (k, v) # kvs else (k', v') # set_prop k v kvs)"

definition updateMetadata :: "world \<Rightarrow> world" where
  \<comment> \<open>every error is caught and logged. Setting \<open>lastSync\<close> on \<open>null\<close> or on a primitive
      throws (the module is strict); on an array the property is lost when the array is
      serialised; a typed record is written back as it is\<close>
  "updateMetadata w =
     (let metadata = (case read w ''metadata'' None of Inr d \<Rightarrow> d | Inl e \<Rightarrow> JObj [(''lastSync'', JNull)])
      in case newDate w of
           (now, w1) \<Rightarrow>
             (case (case metadata of
                      JObj kvs \<Rightarrow> Some (JObj (set_prop ''lastSync'' (JStr now) kvs))
                    | JNull \<Rightarrow> None
                    | JBool b \<Rightarrow> None
                    | JNum n \<Rightarrow> None
                    | JStr s \<Rightarrow> None
                    | other \<Rightarrow> Some other)
              of None \<Rightarrow> w1
               | Some metadata' \<Rightarrow> snd (write_core w1 ''metadata'' metadata' None)))"

definition "write" :: "world \<Rightarrow> string \<Rightarrow> json \<Rightarrow> string option \<Rightarrow> (error + unit) \<times> world" where
  \<comment> \<open>\<open>updateMetadata()\<close> is called without \<open>await\<close>: it can neither fail \<open>write\<close> nor
      touch anything but the metadata entity, its backup, the toasts and the clock. It is
      run here to its end before \<open>write\<close> returns\<close>
  "write w entity d filename =
     (case write_core w entity d filename of
        (Inl e, w1) \<Rightarrow> (Inl e, w1)
      | (Inr u, w1) \<Rightarrow> (Inr u, if isClient w \<and> entity \<noteq> ''metadata'' then updateMetadata w1 else w1))"

section \<open>Arrays of typed records\<close>

text \<open>
  \<open>read<T>\<close> casts what it read to the type the caller names. A service that expects an
  array of records and finds a value that is no array fails with a \<open>TypeError\<close> at the
  first array method it calls (\<open>find\<close>, \<open>filter\<close>, \<open>push\<close>, the spread). The model does
  the same; an array holding anything but records of the expected interface is outside
  what the TypeScript types allow, and the model treats it like a value that is no array.
\<close>

fun un_todo :: "json \<Rightarrow> todo option" where
  "un_todo (JTodo t) = Some t"
| "un_todo _ = None"

fun un_project :: "json \<Rightarrow> project option" where
  "un_project (JProject p) = Some p"
| "un_project _ = None"

fun un_note :: "json \<Rightarrow> note_t option" where
  "un_note (JNote n) = Some n"
| "un_note _ = None"

fun un_version :: "json \<Rightarrow> note_version option" where
  "un_version (JVersion v) = Some v"
| "un_version _ = None"

fun un_notification :: "json \<Rightarrow> notification_data option" where
  "un_notification (JNotification n) = Some n"
| "un_notification _ = None"

fun as_array :: "(json \<Rightarrow> 'a option) \<Rightarrow> json \<Rightarrow> 'a list option" where
  "as_array f (JArr xs) = those (map f xs)"
| "as_array f _ = None"

fun findIndex :: "('a \<Rightarrow> bool) \<Rightarrow> 'a list \<Rightarrow> nat option" where
  \<comment> \<open>\<open>None\<close> is the \<open>-1\<close> of \<open>Array.prototype.findIndex\<close>\<close>
  "findIndex P [] = None"
| "findIndex P (x # xs) = (if P x then Some 0 else map_option Suc (findIndex P xs))"

definition pick :: "'a option \<Rightarrow> 'a \<Rightarrow> 'a" where
  \<comment> \<open>one property of \<open>{...old, ...patch}\<close>: the patch wins where it has the property\<close>
  "pick patch old = (case patch of None \<Rightarrow> old | Some v \<Rightarrow> v)"

section \<open>The todo service (\<open>services/todo/todoService.ts\<close>)\<close>

text \<open>
  \<open>todo_data\<close> is \<open>Omit<Todo, "id" | "createdAt" | "updatedAt">\<close>, the argument of
  \<open>createTodo\<close>; \<open>todo_patch\<close> is \<open>Partial<Omit<Todo, "id" | "createdAt">>\<close>, the
  argument of \<open>updateTodo\<close>. In a patch \<open>None\<close> means that the property is absent; for
  an optional property \<open>Some None\<close> is the property set to \<open>undefined\<close>.
\<close>

record todo_data =
  td_title :: string
  td_description :: "string option"
  td_status :: string
  td_priority :: string
  td_dueDate :: "string option"
  td_projectId :: "string option"
  td_images :: "todo_image list option"
  td_tags :: "string list option"
  td_subtasks :: "sub_task list option"
  td_progress :: "int option"
  td_startDate :: "string option"
  td_completedAt :: "string option"
  td_category :: "string option"
  td_dependsOn :: "string list option"

record todo_patch =
  tp_title :: "string option"
  tp_description :: "string option option"
  tp_status :: "string option"
  tp_priority :: "string option"
  tp_dueDate :: "string option option"
  tp_updatedAt :: "string option"
  tp_projectId :: "string option option"
  tp_images :: "todo_image list option option"
  tp_tags :: "string list option option"
  tp_subtasks :: "sub_task list option option"
  tp_progress :: "int option option"
  tp_startDate :: "string option option"
  tp_completedAt :: "string option option"
  tp_category :: "string option option"
  tp_dependsOn :: "string list option option"

definition no_todo_patch :: todo_patch where
  \<comment> \<open>the object \<open>{}\<close>\<close>
  "no_todo_patch =
     \<lparr>tp_title = None, tp_description = None, tp_status = None, tp_priority = None,
      tp_dueDate = None, tp_updatedAt = None, tp_projectId = None, tp_images = None,
      tp_tags = None, tp_subtasks = None, tp_progress = None, tp_startDate = None,
      tp_completedAt = None, tp_category = None, tp_dependsOn = None\<rparr>"

definition getTodos :: "world \<Rightarrow> json" where
  "getTodos w = (case read w ''todos'' None of Inr d \<Rightarrow> d | Inl e \<Rightarrow> JArr [])"

definition getTodoById :: "world \<Rightarrow> string \<Rightarrow> todo option" where
  \<comment> \<open>\<open>None\<close> is \<open>null\<close>; the \<open>TypeError\<close> of \<open>find\<close> is caught\<close>
  "getTodoById w ident =
     (case as_array un_todo (getTodos w) of
        None \<Rightarrow> None
      | Some todos \<Rightarrow> find (\<lambda>todo. t_id todo = ident) todos)"

definition validateTodoFields ::
  "world \<Rightarrow> string \<Rightarrow> string option \<Rightarrow> string option \<Rightarrow> string \<Rightarrow> string \<Rightarrow> error + unit" where
  \<comment> \<open>\<open>validateTodo\<close> on the properties it looks at: title, description, dueDate, status
      and priority. \<open>subtasks\<close>, \<open>tags\<close> and \<open>images\<close> are arrays by their type\<close>
  "validateTodoFields w title description dueDate status priority =
     (if title = [] \<or> length (trim title) = 0 then Inl (Error ''Todo title is required'')
      else if length title > 100 then Inl (Error ''Todo title must be 100 characters or less'')
      else if truthy description \<and> length (the description) > 500
        then Inl (Error ''Todo description must be 500 characters or less'')
      else if truthy dueDate \<and> parseDate w (the dueDate) = None then Inl (Error ''Invalid due date'')
      else if status \<noteq> [] \<and> status \<notin> set [''pending'', ''in-progress'', ''completed'']
        then Inl (Error ''Invalid status'')
      else if priority \<noteq> [] \<and> priority \<notin> set [''low'', ''medium'', ''high'']
        then Inl (Error ''Invalid priority'')
      else Inr ())"

definition validateTodo :: "world \<Rightarrow> todo \<Rightarrow> error + unit" where
  "validateTodo w todo =
     validateTodoFields w (t_title todo) (t_description todo) (t_dueDate todo) (t_status todo) (t_priority todo)"

definition validateTodoData :: "world \<Rightarrow> todo_data \<Rightarrow> error + unit" where
  "validateTodoData w todoData =
     validateTodoFields w (td_title todoData) (td_description todoData) (td_dueDate todoData)
       (td_status todoData) (td_priority todoData)"

definition newTodo :: "string \<Rightarrow> todo_data \<Rightarrow> string \<Rightarrow> string \<Rightarrow> todo" where
  \<comment> \<open>\<open>{id: generateId(), ...todoData, createdAt: ..., updatedAt: ...}\<close>\<close>
  "newTodo ident todoData createdAt updatedAt =
     \<lparr>t_id = ident, t_title = td_title todoData, t_description = td_description todoData,
      t_status = td_status todoData, t_priority = td_priority todoData,
      t_dueDate = td_dueDate todoData, t_createdAt = createdAt, t_updatedAt = updatedAt,
      t_projectId = td_projectId todoData, t_images = td_images todoData,
      t_tags = td_tags todoData, t_subtasks = td_subtasks todoData,
      t_progress = td_progress todoData, t_startDate = td_startDate todoData,
      t_completedAt = td_completedAt todoData, t_category = td_category todoData,
      t_dependsOn = td_dependsOn todoData\<rparr>"

definition createTodo :: "world \<Rightarrow> todo_data \<Rightarrow> (error + todo) \<times> world" where
  \<comment> \<open>the identifier and the two dates are taken in the order of the object literal\<close>
  "createTodo w todoData =
     (case validateTodoData w todoData of
        Inl e \<Rightarrow> (Inl e, w)
      | Inr u \<Rightarrow>
          let todos = getTodos w
          in case generateId w of
               (ident, w1) \<Rightarrow>
                 (case newDate w1 of
                    (createdAt, w2) \<Rightarrow>
                      (case newDate w2 of
                         (updatedAt, w3) \<Rightarrow>
                           (case as_array un_todo todos of
                              None \<Rightarrow> (Inl (TypeError ''todos.push is not a function''), w3)
                            | Some ts \<Rightarrow>
                                (case write w3 ''todos''
                                        (JArr (map JTodo (ts @ [newTodo ident todoData createdAt updatedAt])))
                                        None of
                                   (Inl e, w4) \<Rightarrow> (Inl e, w4)
                                 | (Inr u, w4) \<Rightarrow>
                                     (Inr (newTodo ident todoData createdAt updatedAt), w4))))))"

definition applyTodoPatch :: "todo \<Rightarrow> todo_patch \<Rightarrow> string \<Rightarrow> todo" where
  \<comment> \<open>\<open>{...todos[index], ...todoData, updatedAt: now}\<close>\<close>
  "applyTodoPatch old todoData now =
     \<lparr>t_id = t_id old,
      t_title = pick (tp_title todoData) (t_title old),
      t_description = pick (tp_description todoData) (t_description old),
      t_status = pick (tp_status todoData) (t_status old),
      t_priority = pick (tp_priority todoData) (t_priority old),
      t_dueDate = pick (tp_dueDate todoData) (t_dueDate old),
      t_createdAt = t_createdAt old,
      t_updatedAt = now,
      t_projectId = pick (tp_projectId todoData) (t_projectId old),
      t_images = pick (tp_images todoData) (t_images old),
      t_tags = pick (tp_tags todoData) (t_tags old),
      t_subtasks = pick (tp_subtasks todoData) (t_subtasks old),
      t_progress = pick (tp_progress todoData) (t_progress old),
      t_startDate = pick (tp_startDate todoData) (t_startDate old),
      t_completedAt = pick (tp_completedAt todoData) (t_completedAt old),
      t_category = pick (tp_category todoData) (t_category old),
      t_dependsOn = pick (tp_dependsOn todoData) (t_dependsOn old)\<rparr>"

definition notFound :: "string \<Rightarrow> string \<Rightarrow> error" where
  \<comment> \<open>\<open>new Error(`Todo with id ${id} not found`)\<close> and its siblings\<close>
  "notFound kind ident = Error (kind @ '' with id '' @ ident @ '' not found'')"

definition updateTodo :: "world \<Rightarrow> string \<Rightarrow> todo_patch \<Rightarrow> (error + todo) \<times> world" where
  "updateTodo w ident todoData =
     (case as_array un_todo (getTodos w) of
        None \<Rightarrow> (Inl (TypeError ''todos.findIndex is not a function''), w)
      | Some todos \<Rightarrow>
          (case findIndex (\<lambda>todo. t_id todo = ident) todos of
             None \<Rightarrow> (Inl (notFound ''Todo'' ident), w)
           | Some index \<Rightarrow>
               (case newDate w of
                  (now, w1) \<Rightarrow>
                    let updatedTodo = applyTodoPatch (todos ! index) todoData now
                    in (case validateTodo w1 updatedTodo of
                          Inl e \<Rightarrow> (Inl e, w1)
                        | Inr u \<Rightarrow>
                            (case write w1 ''todos'' (JArr (map JTodo (todos[index := updatedTodo]))) None of
                               (Inl e, w2) \<Rightarrow> (Inl e, w2)
                             | (Inr u, w2) \<Rightarrow> (Inr updatedTodo, w2))))))"

definition deleteTodo :: "world \<Rightarrow> string \<Rightarrow> (error + bool) \<times> world" where
  "deleteTodo w ident =
     (case as_array un_todo (getTodos w) of
        None \<Rightarrow> (Inl (TypeError ''todos.filter is not a function''), w)
      | Some todos \<Rightarrow>
          let filteredTodos = filter (\<lambda>todo. t_id todo \<noteq> ident) todos
          in if length filteredTodos = length todos then (Inl (notFound ''Todo'' ident), w)
             else (case write w ''todos'' (JArr (map JTodo filteredTodos)) None of
                     (Inl e, w1) \<Rightarrow> (Inl e, w1)
                   | (Inr u, w1) \<Rightarrow> (Inr True, w1)))"


definition getTodosByProject :: "world \<Rightarrow> string \<Rightarrow> todo list" where
  \<comment> \<open>the \<open>TypeError\<close> of \<open>filter\<close> is caught and gives \<open>[]\<close>\<close>
  "getTodosByProject w projectId =
     (case as_array un_todo (getTodos w) of
        None \<Rightarrow> []
      | Some todos \<Rightarrow> filter (\<lambda>todo. t_projectId todo = Some projectId) todos)"

section \<open>The notes service (\<open>services/notes/notesService.ts\<close>)\<close>

text \<open>
  \<open>note_patch\<close> is \<open>Partial<Omit<Note, "id" | "createdAt">>\<close>. Every method of this
  service catches whatever is thrown in its body and throws one fixed error instead.
\<close>

record note_patch =
  npt_title :: "string option"
  npt_content :: "string option"
  npt_updatedAt :: "string option"
  npt_images :: "note_image list option option"
  npt_projectId :: "string option option"
  npt_todoId :: "string option option"
  npt_tags :: "string list option option"
  npt_folder :: "string option option"
  npt_isFavorite :: "bool option option"
  npt_lastEditedAt :: "string option"
  npt_contentType :: "string option"
  npt_relatedNotes :: "string list option option"
  npt_relatedTodos :: "string list option option"
  npt_version :: "int option option"
  npt_collaborators :: "string list option option"
  npt_color :: "string option option"

definition no_note_patch :: note_patch where
  "no_note_patch =
     \<lparr>npt_title = None, npt_content = None, npt_updatedAt = None, npt_images = None,
      npt_projectId = None, npt_todoId = None, npt_tags = None, npt_folder = None,
      npt_isFavorite = None, npt_lastEditedAt = None, npt_contentType = None,
      npt_relatedNotes = None, npt_relatedTodos = None, npt_version = None,
      npt_collaborators = None, npt_color = None\<rparr>"

definition getNotes :: "world \<Rightarrow> error + json" where
  "getNotes w = (case read w ''notes'' None of Inr d \<Rightarrow> Inr d | Inl e \<Rightarrow> Inl (Error ''Failed to retrieve notes''))"

definition getNoteVersions :: "world \<Rightarrow> string \<Rightarrow> json" where
  \<comment> \<open>\<open>read(`note_versions_${noteId}`).catch(() => [])\<close>\<close>
  "getNoteVersions w noteId =
     (case read w (''note_versions_'' @ noteId) None of Inr d \<Rightarrow> d | Inl e \<Rightarrow> JArr [])"

fun spread :: "json \<Rightarrow> json list option" where
  \<comment> \<open>the elements that \<open>[...x]\<close> takes from \<open>x\<close>; \<open>None\<close> when \<open>x\<close> is not iterable
      (a \<open>TypeError\<close>). Arrays and strings are iterable, objects are not\<close>
  "spread (JArr xs) = Some xs"
| "spread (JStr s) = Some (map (\<lambda>c. JStr [c]) s)"
| "spread _ = None"

definition createNoteVersion :: "world \<Rightarrow> string \<Rightarrow> string \<Rightarrow> string \<Rightarrow> (error + note_version) \<times> world" where
  \<comment> \<open>the argument \<open>{noteId, content, timestamp}\<close> is passed as its three properties\<close>
  "createNoteVersion w noteId content timestamp =
     (let versions = getNoteVersions w noteId
      in case generateId w of
           (ident, w1) \<Rightarrow>
             let newVersion = \<lparr>nv_id = ident, nv_noteId = noteId, nv_content = content,
                                nv_timestamp = timestamp, nv_author = None\<rparr>
             in (case spread versions of
                   None \<Rightarrow> (Inl (Error ''Failed to create note version''), w1)
                 | Some vs \<Rightarrow>
                     (case write w1 (''note_versions_'' @ noteId) (JArr (vs @ [JVersion newVersion])) None of
                        (Inl e, w2) \<Rightarrow> (Inl (Error ''Failed to create note version''), w2)
                      | (Inr u, w2) \<Rightarrow> (Inr newVersion, w2))))"

definition applyNotePatch :: "note_t \<Rightarrow> note_patch \<Rightarrow> string \<Rightarrow> int \<Rightarrow> note_t" where
  \<comment> \<open>\<open>{...notes[noteIndex], ...note, updatedAt: timestamp, lastEditedAt: timestamp,
      version: currentVersion + 1}\<close>\<close>
  "applyNotePatch old patch timestamp currentVersion =
     \<lparr>n_id = n_id old,
      n_title = pick (npt_title patch) (n_title old),
      n_content = pick (npt_content patch) (n_content old),
      n_createdAt = n_createdAt old,
      n_updatedAt = timestamp,
      n_images = pick (npt_images patch) (n_images old),
      n_projectId = pick (npt_projectId patch) (n_projectId old),
      n_todoId = pick (npt_todoId patch) (n_todoId old),
      n_tags = pick (npt_tags patch) (n_tags old),
      n_folder = pick (npt_folder patch) (n_folder old),
      n_isFavorite = pick (npt_isFavorite patch) (n_isFavorite old),
      n_lastEditedAt = timestamp,
      n_contentType = pick (npt_contentType patch) (n_contentType old),
      n_relatedNotes = pick (npt_relatedNotes patch) (n_relatedNotes old),
      n_relatedTodos = pick (npt_relatedTodos patch) (n_relatedTodos old),
      n_version = Some (currentVersion + 1),
      n_collaborators = pick (npt_collaborators patch) (n_collaborators old),
      n_color = pick (npt_color patch) (n_color old)\<rparr>"

definition updateNote :: "world \<Rightarrow> string \<Rightarrow> note_patch \<Rightarrow> (error + note_t) \<times> world" where
  "updateNote w ident patch =
     (case (case getNotes w of
              Inl e \<Rightarrow> (Inl e, w)
            | Inr d \<Rightarrow>
                (case as_array un_note d of
                   None \<Rightarrow> (Inl (TypeError ''notes.findIndex is not a function''), w)
                 | Some notes \<Rightarrow>
                     (case findIndex (\<lambda>n. n_id n = ident) notes of
                        None \<Rightarrow> (Inl (notFound ''Note'' ident), w)
                      | Some noteIndex \<Rightarrow>
                          (case newDate w of
                             (timestamp, w1) \<Rightarrow>
                               let old = notes ! noteIndex;
                                   currentVersion = (case n_version old of
                                                       None \<Rightarrow> 1
                                                     | Some v \<Rightarrow> if v = 0 then 1 else v);
                                   updatedNote = applyNotePatch old patch timestamp currentVersion
                               in (case createNoteVersion w1 ident (n_content old)
                                          (if n_lastEditedAt old \<noteq> [] then n_lastEditedAt old
                                           else n_updatedAt old) of
                                     (Inl e, w2) \<Rightarrow> (Inl e, w2)
                                   | (Inr v, w2) \<Rightarrow>
                                       (case write w2 ''notes''
                                               (JArr (map JNote (notes[noteIndex := updatedNote]))) None of
                                          (Inl e, w3) \<Rightarrow> (Inl e, w3)
                                        | (Inr u, w3) \<Rightarrow> (Inr updatedNote, w3)))))))
      of (Inl e, w') \<Rightarrow> (Inl (Error ''Failed to update note''), w')
       | (Inr n, w') \<Rightarrow> (Inr n, w'))"

definition deleteAllNoteVersions :: "world \<Rightarrow> string \<Rightarrow> (error + unit) \<times> world" where
  "deleteAllNoteVersions w noteId =
     (case write w (''note_versions_'' @ noteId) (JArr []) None of
        (Inl e, w1) \<Rightarrow> (Inl (Error ''Failed to delete note versions''), w1)
      | (Inr u, w1) \<Rightarrow> (Inr (), w1))"

definition deleteNote :: "world \<Rightarrow> string \<Rightarrow> (error + unit) \<times> world" where
  "deleteNote w ident =
     (case (case getNotes w of
              Inl e \<Rightarrow> (Inl e, w)
            | Inr d \<Rightarrow>
                (case as_array un_note d of
                   None \<Rightarrow> (Inl (TypeError ''notes.filter is not a function''), w)
                 | Some notes \<Rightarrow>
                     let filteredNotes = filter (\<lambda>n. n_id n \<noteq> ident) notes
                     in if length notes = length filteredNotes then (Inl (notFound ''Note'' ident), w)
                        else (case deleteAllNoteVersions w ident of
                                (Inl e, w1) \<Rightarrow> (Inl e, w1)
                              | (Inr u, w1) \<Rightarrow> write w1 ''notes'' (JArr (map JNote filteredNotes)) None)))
      of (Inl e, w') \<Rightarrow> (Inl (Error ''Failed to delete note''), w')
       | (Inr u, w') \<Rightarrow> (Inr (), w'))"

section \<open>The notification service: the collection\<close>

definition getNotifications :: "world \<Rightarrow> json" where
  "getNotifications w = (case read w ''notifications'' None of Inr d \<Rightarrow> d | Inl e \<Rightarrow> JArr [])"

definition deleteNotification :: "world \<Rightarrow> string \<Rightarrow> (error + unit) \<times> world" where
  "deleteNotification w ident =
     (case (case as_array un_notification (getNotifications w) of
              None \<Rightarrow> (Inl (TypeError ''notifications.filter is not a function''), w)
            | Some notifications \<Rightarrow>
                let filteredNotifications = filter (\<lambda>n. nd_id n \<noteq> ident) notifications
                in if length notifications = length filteredNotifications
                   then (Inl (notFound ''Notification'' ident), w)
                   else write w ''notifications'' (JArr (map JNotification filteredNotifications)) None)
      of (Inl e, w') \<Rightarrow> (Inl (Error ''Failed to delete notification''), w')
       | (Inr u, w') \<Rightarrow> (Inr (), w'))"

section \<open>Double-precision arithmetic of the progress percentage\<close>

text \<open>
  \<open>Math.round((completedTodos / project.todoIds.length) * 100)\<close> is computed on IEEE 754
  doubles: the quotient is rounded to 53 significant bits (ties to even), the product
  with 100 is rounded again, and \<open>Math.round\<close> takes the nearest integer, a half going
  up. A positive double that need not be an integer is a pair \<open>(m, e)\<close> that stands for
  \<open>m * 2 ^ e\<close>. Both operands
  are lengths of arrays, so they are below \<open>2 ^ 32\<close> and every intermediate value is a
  normal number.
\<close>

definition scaled :: "nat \<Rightarrow> nat \<Rightarrow> int \<Rightarrow> int \<times> int" where
  \<comment> \<open>numerator and denominator of \<open>(a / b) / 2 ^ e\<close>\<close>
  "scaled a b e = (if e \<le> 0 then (int a * 2 ^ nat (- e), int b) else (int a, int b * 2 ^ nat e))"

definition double_div :: "nat \<Rightarrow> nat \<Rightarrow> int \<times> int" where
  \<comment> \<open>\<open>a / b\<close> for positive integers \<open>a\<close> and \<open>b\<close>\<close>
  "double_div a b =
     (let e0 = int (bit_length (int a)) - int (bit_length (int b)) - 52;
          e = (if fst (scaled a b e0) < snd (scaled a b e0) * 2 ^ 52 then e0 - 1 else e0)
      in (round_half_even (fst (scaled a b e)) (snd (scaled a b e)), e))"

definition double_times_100 :: "int \<times> int \<Rightarrow> int \<times> int" where
  "double_times_100 x =
     (let p = 100 * fst x;
          k = int (bit_length p) - 53
      in if k \<le> 0 then (p, snd x) else (round_half_even p (2 ^ nat k), snd x + k))"

definition math_round :: "int \<times> int \<Rightarrow> int" where
  \<comment> \<open>\<open>Math.round\<close>: \<open>floor (x + 1/2)\<close>\<close>
  "math_round x =
     (if 0 \<le> snd x then fst x * 2 ^ nat (snd x)
      else (2 * fst x + 2 ^ nat (- snd x)) div 2 ^ (nat (- snd x) + 1))"

definition progressPercent :: "nat \<Rightarrow> nat \<Rightarrow> int" where
  \<comment> \<open>\<open>Math.round((completedTodos / length) * 100)\<close> for \<open>0 < length\<close>\<close>
  "progressPercent completedTodos len =
     (if completedTodos = 0 then 0 else math_round (double_times_100 (double_div completedTodos len)))"

section \<open>The project service (\<open>services/project/projectService.ts\<close>)\<close>

record project_patch =
  pp_id :: "string option"
  pp_name :: "string option"
  pp_description :: "string option option"
  pp_status :: "string option"
  pp_createdAt :: "string option"
  pp_updatedAt :: "string option"
  pp_startDate :: "string option option"
  pp_dueDate :: "string option option"
  pp_completedAt :: "string option option"
  pp_color :: "string option option"
  pp_progress :: "int option"
  pp_todoIds :: "string list option"
  pp_milestones :: "milestone list option"
  pp_resources :: "project_resource list option option"
  pp_tags :: "string list option option"
  pp_owner :: "string option option"
  pp_risks :: "project_risk list option option"
  pp_velocity :: "int option option"
  pp_timeSpent :: "int option option"

definition no_project_patch :: project_patch where
  "no_project_patch =
     \<lparr>pp_id = None, pp_name = None, pp_description = None, pp_status = None,
      pp_createdAt = None, pp_updatedAt = None, pp_startDate = None, pp_dueDate = None,
      pp_completedAt = None, pp_color = None, pp_progress = None, pp_todoIds = None,
      pp_milestones = None, pp_resources = None, pp_tags = None, pp_owner = None,
      pp_risks = None, pp_velocity = None, pp_timeSpent = None\<rparr>"

definition getProjects :: "world \<Rightarrow> json" where
  "getProjects w = (case read w ''projects'' None of Inr d \<Rightarrow> d | Inl e \<Rightarrow> JArr [])"

definition getProjectById :: "world \<Rightarrow> string \<Rightarrow> project option" where
  "getProjectById w ident =
     (case as_array un_project (getProjects w) of
        None \<Rightarrow> None
      | Some projects \<Rightarrow> find (\<lambda>project. p_id project = ident) projects)"

definition validateProject :: "world \<Rightarrow> project \<Rightarrow> error + unit" where
  "validateProject w project =
     (if p_name project = [] \<or> length (trim (p_name project)) = 0
        then Inl (Error ''Project name is required'')
      else if length (p_name project) > 100
        then Inl (Error ''Project name must be 100 characters or less'')
      else if truthy (p_description project) \<and> length (the (p_description project)) > 500
        then Inl (Error ''Project description must be 500 characters or less'')
      else if truthy (p_dueDate project) \<and> parseDate w (the (p_dueDate project)) = None
        then Inl (Error ''Invalid due date'')
      else if truthy (p_startDate project) \<and> parseDate w (the (p_startDate project)) = None
        then Inl (Error ''Invalid start date'')
      else if truthy (p_startDate project) \<and> truthy (p_dueDate project) \<and>
              the (parseDate w (the (p_startDate project))) > the (parseDate w (the (p_dueDate project)))
        then Inl (Error ''Start date must be before due date'')
      else if p_status project \<noteq> [] \<and>
              p_status project \<notin> set [''planning'', ''active'', ''on-hold'', ''completed'', ''archived'']
        then Inl (Error ''Invalid project status'')
      else Inr ())"

definition applyProjectPatch :: "project \<Rightarrow> project_patch \<Rightarrow> string \<Rightarrow> string \<Rightarrow> project" where
  \<comment> \<open>\<open>{...projects[index], ...projectData, id, createdAt: projects[index].createdAt,
      updatedAt: now}\<close>\<close>
  "applyProjectPatch old projectData ident now =
     \<lparr>p_id = ident,
      p_name = pick (pp_name projectData) (p_name old),
      p_description = pick (pp_description projectData) (p_description old),
      p_status = pick (pp_status projectData) (p_status old),
      p_createdAt = p_createdAt old,
      p_updatedAt = now,
      p_startDate = pick (pp_startDate projectData) (p_startDate old),
      p_dueDate = pick (pp_dueDate projectData) (p_dueDate old),
      p_completedAt = pick (pp_completedAt projectData) (p_completedAt old),
      p_color = pick (pp_color projectData) (p_color old),
      p_progress = pick (pp_progress projectData) (p_progress old),
      p_todoIds = pick (pp_todoIds projectData) (p_todoIds old),
      p_milestones = pick (pp_milestones projectData) (p_milestones old),
      p_resources = pick (pp_resources projectData) (p_resources old),
      p_tags = pick (pp_tags projectData) (p_tags old),
      p_owner = pick (pp_owner projectData) (p_owner old),
      p_risks = pick (pp_risks projectData) (p_risks old),
      p_velocity = pick (pp_velocity projectData) (p_velocity old),
      p_timeSpent = pick (pp_timeSpent projectData) (p_timeSpent old)\<rparr>"

definition updateProject :: "world \<Rightarrow> string \<Rightarrow> project_patch \<Rightarrow> (error + project) \<times> world" where
  "updateProject w ident projectData =
     (case as_array un_project (getProjects w) of
        None \<Rightarrow> (Inl (TypeError ''projects.findIndex is not a function''), w)
      | Some projects \<Rightarrow>
          (case findIndex (\<lambda>project. p_id project = ident) projects of
             None \<Rightarrow> (Inl (notFound ''Project'' ident), w)
           | Some index \<Rightarrow>
               (case newDate w of
                  (now, w1) \<Rightarrow>
                    let updatedProject = applyProjectPatch (projects ! index) projectData ident now
                    in (case validateProject w1 updatedProject of
                          Inl e \<Rightarrow> (Inl e, w1)
                        | Inr u \<Rightarrow>
                            (case write w1 ''projects''
                                    (JArr (map JProject (projects[index := updatedProject]))) None of
                               (Inl e, w2) \<Rightarrow> (Inl e, w2)
                             | (Inr u, w2) \<Rightarrow> (Inr updatedProject, w2))))))"

definition deleteProject :: "world \<Rightarrow> string \<Rightarrow> (error + bool) \<times> world" where
  "deleteProject w ident =
     (case as_array un_project (getProjects w) of
        None \<Rightarrow> (Inl (TypeError ''projects.filter is not a function''), w)
      | Some projects \<Rightarrow>
          let filteredProjects = filter (\<lambda>project. p_id project \<noteq> ident) projects
          in if length filteredProjects = length projects then (Inl (notFound ''Project'' ident), w)
             else (case write w ''projects'' (JArr (map JProject filteredProjects)) None of
                     (Inl e, w1) \<Rightarrow> (Inl e, w1)
                   | (Inr u, w1) \<Rightarrow> (Inr True, w1)))"

definition updateProjectProgress :: "world \<Rightarrow> string \<Rightarrow> (error + int) \<times> world" where
  "updateProjectProgress w projectId =
     (case getProjectById w projectId of
        None \<Rightarrow> (Inl (notFound ''Project'' projectId), w)
      | Some project \<Rightarrow>
          if length (p_todoIds project) = 0
          then (case updateProject w projectId (no_project_patch\<lparr>pp_progress := Some 0\<rparr>) of
                  (Inl e, w1) \<Rightarrow> (Inl e, w1)
                | (Inr p, w1) \<Rightarrow> (Inr 0, w1))
          else
            let projectTodos = getTodosByProject w projectId;
                completedTodos = length (filter (\<lambda>todo. t_status todo = ''completed'') projectTodos);
                progress = progressPercent completedTodos (length (p_todoIds project))
            in (case updateProject w projectId (no_project_patch\<lparr>pp_progress := Some progress\<rparr>) of
                  (Inl e, w1) \<Rightarrow> (Inl e, w1)
                | (Inr p, w1) \<Rightarrow> (Inr progress, w1)))"

definition addTodoToProject :: "world \<Rightarrow> string \<Rightarrow> string \<Rightarrow> (error + project) \<times> world" where
  "addTodoToProject w projectId todoId =
     (case getProjectById w projectId of
        None \<Rightarrow> (Inl (notFound ''Project'' projectId), w)
      | Some project \<Rightarrow>
          (case getTodoById w todoId of
             None \<Rightarrow> (Inl (notFound ''Todo'' todoId), w)
           | Some todo \<Rightarrow>
               if todoId \<in> set (p_todoIds project) then (Inr project, w)
               else
                 let updatedTodoIds = p_todoIds project @ [todoId]
                 in (case updateTodo w todoId (no_todo_patch\<lparr>tp_projectId := Some (Some projectId)\<rparr>) of
                       (Inl e, w1) \<Rightarrow> (Inl e, w1)
                     | (Inr t, w1) \<Rightarrow>
                         (case updateProjectProgress w1 projectId of
                            (Inl e, w2) \<Rightarrow> (Inl e, w2)
                          | (Inr n, w2) \<Rightarrow>
                              updateProject w2 projectId
                                (no_project_patch\<lparr>pp_todoIds := Some updatedTodoIds\<rparr>)))))"

definition removeTodoFromProject :: "world \<Rightarrow> string \<Rightarrow> string \<Rightarrow> (error + project) \<times> world" where
  "removeTodoFromProject w projectId todoId =
     (case getProjectById w projectId of
        None \<Rightarrow> (Inl (notFound ''Project'' projectId), w)
      | Some project \<Rightarrow>
          if todoId \<notin> set (p_todoIds project) then (Inr project, w)
          else
            let updatedTodoIds = filter (\<lambda>i. i \<noteq> todoId) (p_todoIds project)
            in (case (case getTodoById w todoId of
                        None \<Rightarrow> (Inr (), w)
                      | Some todo \<Rightarrow>
                          if t_projectId todo = Some projectId
                          then (case updateTodo w todoId (no_todo_patch\<lparr>tp_projectId := Some None\<rparr>) of
                                  (Inl e, w1) \<Rightarrow> (Inl e, w1)
                                | (Inr t, w1) \<Rightarrow> (Inr (), w1))
                          else (Inr (), w))
                of (Inl e, w1) \<Rightarrow> (Inl e, w1)
                 | (Inr u, w1) \<Rightarrow>
                     (case updateProjectProgress w1 projectId of
                        (Inl e, w2) \<Rightarrow> (Inl e, w2)
                      | (Inr n, w2) \<Rightarrow>
                          updateProject w2 projectId
                            (no_project_patch\<lparr>pp_todoIds := Some updatedTodoIds\<rparr>))))"

definition roundedPercentage :: "nat \<Rightarrow> nat \<Rightarrow> int" where
  \<comment> \<open>the formula of the specification, \<open>round(100 * completed / total)\<close> with a half
      rounded up and \<open>0\<close> for an empty list; exact arithmetic\<close>
  "roundedPercentage completed len =
     (if len = 0 then 0 else (200 * int completed + int len) div (2 * int len))"

section \<open>Working storage\<close>

text \<open>
  The claims about the entity services speak of what is persisted, so they are stated for
  a storage that works: the client runs in the browser and either uses \<open>localStorage\<close>
  alone, or reaches the server under \<open>/api/storage\<close>, or cannot reach it at all and falls
  back to \<open>localStorage\<close>; and where \<open>localStorage\<close> is written, it takes every item.
  \<open>persisted\<close> is what such a storage holds for an entity.
\<close>

definition entity_ok :: "string \<Rightarrow> bool" where
  "entity_ok e = (sanitizedEntity e = e \<and> e \<noteq> [])"

definition roomy :: "world \<Rightarrow> bool" where
  \<comment> \<open>\<open>setItem\<close> never throws\<close>
  "roomy w = (\<forall>items key v. \<not> refuses w items key v)"

definition localMode :: "world \<Rightarrow> bool" where
  "localMode w = (isClient w \<and> \<not> useServerStorage (config w) \<and> roomy w)"

definition serverMode :: "world \<Rightarrow> bool" where
  "serverMode w = (isClient w \<and> useServerStorage (config w) \<and> net w = Online \<and>
                   apiBasePath (config w) = ''/api/storage'')"

definition fallbackMode :: "world \<Rightarrow> bool" where
  "fallbackMode w = (isClient w \<and> useServerStorage (config w) \<and> net w = Offline \<and>
                     fallbackToLocalStorage (config w) \<and> roomy w)"

definition stable :: "world \<Rightarrow> bool" where
  "stable w = (localMode w \<or> serverMode w \<or> fallbackMode w)"

definition sameSetup :: "world \<Rightarrow> world \<Rightarrow> bool" where
  "sameSetup w w' = (isClient w' = isClient w \<and> config w' = config w \<and> net w' = net w \<and>
                     refuses w' = refuses w \<and> clock w' = clock w \<and> idSupply w' = idSupply w \<and> idCount w' = idCount w \<and>
                     parseDate w' = parseDate w)"

definition persisted :: "world \<Rightarrow> string \<Rightarrow> json option" where
  "persisted w e =
     (if serverMode w then readData w e
      else (case localStorage w (getStorageKey w e None) of
              Some (Text d) \<Rightarrow> Some d
            | _ \<Rightarrow> None))"

definition accepted :: "world \<Rightarrow> string \<Rightarrow> raw \<Rightarrow> bool" where
  \<comment> \<open>\<open>localStorage\<close> takes the backup copy of the value that is under the key, if there is
      one, and then the value\<close>
  "accepted w key v =
     (let existing = localStorage w key;
          backedUp = (if raw_truthy existing then (localStorage w)(key @ ''_backup'' := existing)
                      else localStorage w)
      in (raw_truthy existing \<longrightarrow> \<not> refuses w (localStorage w) (key @ ''_backup'') (the existing))
         \<and> \<not> refuses w backedUp key v)"

section \<open>Quiet hours: well-formed times\<close>

definition getDefaultPreferences :: notification_preference where
  \<comment> \<open>\<open>NotificationService.getDefaultPreferences\<close>\<close>
  "getDefaultPreferences =
     \<lparr>enabled = True, channels = [''browser''], quietHoursStart = None, quietHoursEnd = None,
      categories = \<lparr>cat_todo = True, cat_project = True, cat_note = True, cat_system = True\<rparr>,
      priorities = \<lparr>prio_low = True, prio_medium = True, prio_high = True\<rparr>\<rparr>"

definition digit_char :: "nat \<Rightarrow> char" where
  "digit_char d = char_of (48 + d)"

definition hhmm :: "nat \<Rightarrow> nat \<Rightarrow> string" where
  \<comment> \<open>the time \<open>h:m\<close> written with two digits each\<close>
  "hhmm h m = [digit_char (h div 10), digit_char (h mod 10), CHR '':'',
               digit_char (m div 10), digit_char (m mod 10)]"

definition inInterval :: "int \<Rightarrow> int \<Rightarrow> int \<Rightarrow> bool" where
  \<comment> \<open>the specification's containment: a closed interval of minutes, spanning midnight
      when the start is after the end\<close>
  "inInterval s e n = (if s \<le> e then s \<le> n \<and> n \<le> e else s \<le> n \<or> n \<le> e)"

section \<open>Sample worlds\<close>

text \<open>
  A world to evaluate the services in: its storage mode, network, files and items are
  given, and its \<open>localStorage\<close> takes every item.
\<close>

definition sampleClock :: "nat \<Rightarrow> string" where
  "sampleClock n = ''2024-05-01T10:00:00.'' @ show_nat (100 + n) @ ''Z''"

definition sampleIds :: "nat \<Rightarrow> string" where
  "sampleIds n = ''id-'' @ show_nat n"

definition sampleWorld :: "bool \<Rightarrow> network \<Rightarrow> (string \<rightharpoonup> json) \<Rightarrow> (string \<rightharpoonup> raw) \<Rightarrow> world" where
  "sampleWorld useServer network files items =
     \<lparr>isClient = True,
      config = \<lparr>useServerStorage = useServer, apiBasePath = ''/api/storage'',
                fallbackToLocalStorage = True\<rparr>,
      net = network, serverFiles = files, localStorage = items,
      refuses = (\<lambda>stored key v. False), toasts = [],
      clock = sampleClock, ticks = 0, idSupply = sampleIds, idCount = 0,
      parseDate = (\<lambda>s. None)\<rparr>"

definition fullWorld :: world where
  \<comment> \<open>the server cannot be reached and \<open>localStorage\<close>, which is empty, takes nothing\<close>
  "fullWorld = (sampleWorld True Offline Map.empty Map.empty)\<lparr>refuses := (\<lambda>stored key v. True)\<rparr>"

definition post_fails :: "world \<Rightarrow> string \<Rightarrow> string option \<Rightarrow> json \<Rightarrow> bool" where
  \<comment> \<open>the server write fails: \<open>fetch\<close> rejects, or the response is not \<open>ok\<close>\<close>
  "post_fails w entity filename d =
     (case fst (fetch_post w entity filename d) of
        Inl e \<Rightarrow> True
      | Inr (Response st body) \<Rightarrow> \<not> response_ok st)"

section \<open>Sample records\<close>

definition isNotFoundError :: "error \<Rightarrow> bool" where
  \<comment> \<open>the services have no error classes: a not-found error is an \<open>Error\<close> whose message
      ends in \<open>not found\<close>\<close>
  "isNotFoundError e =
     (case e of
        Error m \<Rightarrow> take 10 (rev m) = rev '' not found''
      | _ \<Rightarrow> False)"

definition sampleTodo :: "string \<Rightarrow> string \<Rightarrow> string option \<Rightarrow> todo" where
  "sampleTodo ident status projectId =
     \<lparr>t_id = ident, t_title = ''Write the report'', t_description = None, t_status = status,
      t_priority = ''medium'', t_dueDate = None, t_createdAt = ''2024-04-01T09:00:00.000Z'',
      t_updatedAt = ''2024-04-01T09:00:00.000Z'', t_projectId = projectId, t_images = None,
      t_tags = None, t_subtasks = None, t_progress = None, t_startDate = None,
      t_completedAt = None, t_category = None, t_dependsOn = None\<rparr>"

definition sampleProject :: "string \<Rightarrow> string list \<Rightarrow> int \<Rightarrow> project" where
  "sampleProject ident todoIds progress =
     \<lparr>p_id = ident, p_name = ''Launch'', p_description = None, p_status = ''active'',
      p_createdAt = ''2024-04-01T09:00:00.000Z'', p_updatedAt = ''2024-04-01T09:00:00.000Z'',
      p_startDate = None, p_dueDate = None, p_completedAt = None, p_color = None,
      p_progress = progress, p_todoIds = todoIds, p_milestones = [], p_resources = None,
      p_tags = None, p_owner = None, p_risks = None, p_velocity = None, p_timeSpent = None\<rparr>"

definition sampleNote :: "string \<Rightarrow> note_t" where
  "sampleNote ident =
     \<lparr>n_id = ident, n_title = ''Idea'', n_content = ''first draft'',
      n_createdAt = ''2024-04-01T09:00:00.000Z'', n_updatedAt = ''2024-04-01T09:00:00.000Z'',
      n_images = None, n_projectId = None, n_todoId = None, n_tags = None, n_folder = None,
      n_isFavorite = None, n_lastEditedAt = ''2024-04-01T09:00:00.000Z'',
      n_contentType = ''markdown'', n_relatedNotes = None, n_relatedTodos = None,
      n_version = Some 1, n_collaborators = None, n_color = None\<rparr>"

definition sampleNotification :: "string \<Rightarrow> notification_data" where
  "sampleNotification ident =
     \<lparr>nd_id = ident, nd_title = ''Due soon'', nd_message = ''The report is due tomorrow'',
      nd_type = ''info'', nd_timestamp = ''2024-04-01T09:00:00.000Z'', nd_read = False,
      nd_todoId = None, nd_projectId = None, nd_noteId = None, nd_priority = ''medium'',
      nd_actions = None, nd_expiresAt = None, nd_category = None, nd_source = None\<rparr>"

definition serverWorld :: world where
  \<comment> \<open>a server that holds one record of each collection\<close>
  "serverWorld =
     sampleWorld True Online
       [''todos'' \<mapsto> JArr [JTodo (sampleTodo ''t1'' ''pending'' None)],
        ''projects'' \<mapsto> JArr [JProject (sampleProject ''p1'' [] 0)],
        ''notes'' \<mapsto> JArr [JNote (sampleNote ''n1'')],
        ''notifications'' \<mapsto> JArr [JNotification (sampleNotification ''m1'')]]
       Map.empty"

definition todoWorld :: world where
  \<comment> \<open>\<open>localStorage\<close> alone, holding two pending todos\<close>
  "todoWorld =
     sampleWorld False Online Map.empty
       [''taskflow_data_todos'' \<mapsto>
          Text (JArr [JTodo (sampleTodo ''t1'' ''pending'' None), JTodo (sampleTodo ''t2'' ''pending'' None)])]"

definition addWorld :: world where
  \<comment> \<open>\<open>localStorage\<close> alone: a project without todos and a completed todo outside it\<close>
  "addWorld =
     sampleWorld False Online Map.empty
       [''taskflow_data_projects'' \<mapsto> Text (JArr [JProject (sampleProject ''p1'' [] 0)]),
        ''taskflow_data_todos'' \<mapsto> Text (JArr [JTodo (sampleTodo ''t1'' ''completed'' None)])]"


definition manyTodos :: "todo list" where
  \<comment> \<open>forty todos of project \<open>p1\<close>, the first twenty-three completed\<close>
  "manyTodos =
     map (\<lambda>i. sampleTodo (show_nat i) ''completed'' (Some ''p1'')) [0..<23] @
     map (\<lambda>i. sampleTodo (show_nat i) ''pending'' (Some ''p1'')) [23..<40]"

definition manyWorld :: world where
  "manyWorld =
     sampleWorld False Online Map.empty
       [''taskflow_data_projects'' \<mapsto> Text (JArr [JProject (sampleProject ''p1'' (map t_id manyTodos) 0)]),
        ''taskflow_data_todos'' \<mapsto> Text (JArr (map JTodo manyTodos))]"

definition sampleTodoData :: todo_data where
  \<comment> \<open>a valid argument of \<open>createTodo\<close>\<close>
  "sampleTodoData =
     \<lparr>td_title = ''Buy milk'', td_description = None, td_status = ''pending'',
      td_priority = ''low'', td_dueDate = None, td_projectId = None, td_images = None,
      td_tags = None, td_subtasks = None, td_progress = None, td_startDate = None,
      td_completedAt = None, td_category = None, td_dependsOn = None\<rparr>"

section \<open>The progress that is computed\<close>

definition projectProgress :: "world \<Rightarrow> string \<Rightarrow> project \<Rightarrow> int" where
  \<comment> \<open>the value that \<open>updateProjectProgress\<close> computes for a project it has found\<close>
  "projectProgress w p project =
     (if length (p_todoIds project) = 0 then 0
      else progressPercent
             (length (filter (\<lambda>todo. t_status todo = ''completed'') (getTodosByProject w p)))
             (length (p_todoIds project)))"

section \<open>Facts about the storage service\<close>

lemma key_None: "getStorageKey w e None = basePath w @ ''_'' @ e"
  by (simp add: getStorageKey_def truthy_def)

lemma key_inj [simp]: "(getStorageKey w e None = getStorageKey w e' None) = (e = e')"
  by (simp add: key_None)

lemma key_backup [simp]: "(getStorageKey w e None @ ''_backup'' = getStorageKey w e' None) = (e' = e @ ''_backup'')"
  by (auto simp add: key_None)

lemma key_backup' [simp]: "(getStorageKey w e' None = getStorageKey w e None @ ''_backup'') = (e' = e @ ''_backup'')"
  by (auto simp add: key_None)

lemma modes_excl: "serverMode w \<Longrightarrow> \<not> localMode w \<and> \<not> fallbackMode w"
  by (auto simp: serverMode_def localMode_def fallbackMode_def)

lemma setItem_roomy:
  "roomy w \<Longrightarrow> setItem w k v = (Inr (), w\<lparr>localStorage := (localStorage w)(k \<mapsto> v)\<rparr>)"
  by (simp add: setItem_def roomy_def)

lemma roomy_upd [simp]:
  "roomy (w\<lparr>localStorage := ls\<rparr>) = roomy w"
  "roomy (w\<lparr>toasts := ts\<rparr>) = roomy w"
  "roomy (w\<lparr>serverFiles := fs\<rparr>) = roomy w"
  "roomy (w\<lparr>ticks := n\<rparr>) = roomy w"
  by (simp_all add: roomy_def)

lemma write_local_roomy:
  assumes "roomy w"
  shows "write_local w e d f =
     (Inr (), w\<lparr>localStorage :=
                  (if raw_truthy (localStorage w (getStorageKey w e f))
                   then (localStorage w)(getStorageKey w e f @ ''_backup'' := localStorage w (getStorageKey w e f))
                   else localStorage w)(getStorageKey w e f \<mapsto> Text d)\<rparr>)"
proof (cases "localStorage w (getStorageKey w e f)")
  case None
  then show ?thesis
    using assms by (simp add: write_local_def Let_def raw_truthy_def setItem_roomy)
next
  case (Some v)
  then show ?thesis
    using assms by (simp add: write_local_def Let_def setItem_roomy getStorageKey_def)
qed

lemma read_stable:
  assumes "stable w" "entity_ok e"
  shows "read w e None = Inr (case persisted w e of None \<Rightarrow> getEmptyDataByEntityType e | Some d \<Rightarrow> d)"
  using assms
  unfolding stable_def
  apply (elim disjE)
    apply (simp add: localMode_def read_def read_local_def persisted_def serverMode_def
      split: option.splits raw.splits)
   apply (simp add: serverMode_def read_def read_server_def fetch_get_def routed_def GET_def readData_def
      persisted_def entity_ok_def truthy_def response_ok_def split: option.splits)
  apply (simp add: fallbackMode_def read_def read_server_def fetch_get_def read_local_def persisted_def
      serverMode_def split: option.splits raw.splits)
  done


lemma stable_isClient: "stable w \<Longrightarrow> isClient w"
  by (auto simp: stable_def localMode_def serverMode_def fallbackMode_def)

lemma sameSetup_refl [simp]: "sameSetup w w"
  by (simp add: sameSetup_def)

lemma sameSetup_trans: "sameSetup w w1 \<Longrightarrow> sameSetup w1 w2 \<Longrightarrow> sameSetup w w2"
  by (simp add: sameSetup_def)

lemma sameSetup_modes:
  assumes "sameSetup w w'"
  shows "localMode w' = localMode w" "serverMode w' = serverMode w" "fallbackMode w' = fallbackMode w"
    "stable w' = stable w" "basePath w' = basePath w"
  using assms
  by (simp_all add: sameSetup_def localMode_def serverMode_def fallbackMode_def stable_def basePath_def
      roomy_def)

lemma sameSetup_key: "sameSetup w w' \<Longrightarrow> getStorageKey w' e f = getStorageKey w e f"
  by (simp add: getStorageKey_def sameSetup_modes)

lemma write_core_fst: "stable w \<Longrightarrow> entity_ok e \<Longrightarrow> fst (write_core w e d None) = Inr ()"
  unfolding stable_def
  apply (elim disjE)
    apply (simp add: localMode_def write_core_def write_local_roomy)
   apply (simp add: serverMode_def write_core_def write_server_def fetch_post_def routed_def POST_def
      entity_ok_def truthy_def response_ok_def)
  apply (simp add: fallbackMode_def write_core_def write_server_def fetch_post_def Let_def
      write_local_roomy)
  done

lemma setItem_setup: "sameSetup w (snd (setItem w k v))" "ticks (snd (setItem w k v)) = ticks w"
  by (simp_all add: setItem_def sameSetup_def)

lemma write_local_setup:
  "sameSetup w (snd (write_local w e d f))" "ticks (snd (write_local w e d f)) = ticks w"
proof -
  let ?k = "getStorageKey w e f"
  show "sameSetup w (snd (write_local w e d f))"
  proof (cases "raw_truthy (localStorage w ?k)")
    case False
    then show ?thesis by (simp add: write_local_def Let_def setItem_setup)
  next
    case True
    show ?thesis
    proof (cases "setItem w (?k @ ''_backup'') (the (localStorage w ?k))")
      case (Pair r w1)
      then have s1: "sameSetup w w1" using setItem_setup(1) [of w "?k @ ''_backup''" "the (localStorage w ?k)"] by simp
      show ?thesis
        using True Pair s1 sameSetup_trans [OF s1 setItem_setup(1)]
        by (cases r) (simp_all add: write_local_def Let_def)
    qed
  qed
  show "ticks (snd (write_local w e d f)) = ticks w"
  proof (cases "raw_truthy (localStorage w ?k)")
    case False
    then show ?thesis by (simp add: write_local_def Let_def setItem_setup)
  next
    case True
    show ?thesis
    proof (cases "setItem w (?k @ ''_backup'') (the (localStorage w ?k))")
      case (Pair r w1)
      then have s1: "ticks w1 = ticks w" using setItem_setup(2) [of w "?k @ ''_backup''" "the (localStorage w ?k)"] by simp
      show ?thesis
        using True Pair s1 by (cases r) (simp_all add: write_local_def Let_def setItem_setup)
    qed
  qed
qed

lemma write_server_setup:
  "sameSetup w (snd (write_server w e d f))" "ticks (snd (write_server w e d f)) = ticks w"
  by (simp_all add: write_server_def fetch_post_def POST_def sameSetup_def Let_def
      split: network.splits response.splits sum.splits prod.splits)

lemma write_core_cases:
  "snd (write_core w e d f) = w \<or>
   snd (write_core w e d f) = snd (write_server w e d f) \<or>
   snd (write_core w e d f) = snd (write_local w e d f) \<or>
   snd (write_core w e d f) = snd (write_local (snd (write_server w e d f)) e d f)"
proof (cases "write_server w e d f")
  case (Pair r w1)
  show ?thesis
  proof (cases "write_local w e d f")
    case a: (Pair r2 w2)
    show ?thesis
    proof (cases "write_local w1 e d f")
      case b: (Pair r3 w3)
      show ?thesis
        using Pair a b by (auto simp add: write_core_def split: sum.splits)
    qed
  qed
qed

lemma write_core_setup: "sameSetup w (snd (write_core w e d f))"
  using write_core_cases [of w e d f] write_server_setup(1) [of w e d f] write_local_setup(1) [of w e d f]
    sameSetup_trans [OF write_server_setup(1) write_local_setup(1), of w e d f e d f]
  by auto

lemma write_core_ticks: "ticks (snd (write_core w e d f)) = ticks w"
  using write_core_cases [of w e d f] write_server_setup(2) [of w e d f] write_local_setup(2) [of w e d f]
    write_local_setup(2) [of "snd (write_server w e d f)" e d f]
  by auto

lemma key_upd [simp]:
  "getStorageKey (w\<lparr>localStorage := ls\<rparr>) e f = getStorageKey w e f"
  "getStorageKey (w\<lparr>toasts := ts\<rparr>) e f = getStorageKey w e f"
  "getStorageKey (w\<lparr>serverFiles := fs\<rparr>) e f = getStorageKey w e f"
  "getStorageKey (w\<lparr>ticks := n\<rparr>) e f = getStorageKey w e f"
  by (simp_all add: getStorageKey_def basePath_def)

lemma serverMode_upd [simp]:
  "serverMode (w\<lparr>localStorage := ls\<rparr>) = serverMode w"
  "serverMode (w\<lparr>toasts := ts\<rparr>) = serverMode w"
  "serverMode (w\<lparr>serverFiles := fs\<rparr>) = serverMode w"
  "serverMode (w\<lparr>ticks := n\<rparr>) = serverMode w"
  by (simp_all add: serverMode_def)

lemma persisted_upd [simp]:
  "persisted (w\<lparr>toasts := ts\<rparr>) e = persisted w e"
  "persisted (w\<lparr>ticks := n\<rparr>) e = persisted w e"
  by (simp_all add: persisted_def readData_def)

lemma persisted_write_local:
  assumes "\<not> serverMode w" "e' \<noteq> e @ ''_backup''" "roomy w"
  shows "persisted (snd (write_local w e d None)) e' = (if e' = e then Some d else persisted w e')"
  using assms(1,2) by (simp add: persisted_def write_local_roomy [OF assms(3)])

lemma write_core_persisted:
  assumes "stable w" "entity_ok e" "e' \<noteq> e @ ''_backup''" "e' = e \<longrightarrow> d \<noteq> JNull"
  shows "persisted (snd (write_core w e d None)) e' = (if e' = e then Some d else persisted w e')"
  using assms(1) unfolding stable_def
proof (elim disjE)
  assume m: "localMode w"
  then have ns: "\<not> serverMode w" and r: "roomy w" by (simp_all add: localMode_def serverMode_def)
  from m have wc: "snd (write_core w e d None) = snd (write_local w e d None)"
    by (simp add: localMode_def write_core_def write_local_roomy)
  show ?thesis
    using persisted_write_local [OF ns assms(3) r] by (simp add: wc)
next
  assume m: "serverMode w"
  then have wc: "snd (write_core w e d None) = w\<lparr>serverFiles := (serverFiles w)(e \<mapsto> d)\<rparr>"
    using assms(2)
    by (simp add: serverMode_def write_core_def write_server_def fetch_post_def routed_def POST_def
        entity_ok_def truthy_def response_ok_def)
  show ?thesis
    using m assms(4) by (simp add: persisted_def readData_def wc)
next
  assume m: "fallbackMode w"
  then have ns: "\<not> serverMode (w\<lparr>toasts := toasts w @ [storageWarning]\<rparr>)"
    and r: "roomy (w\<lparr>toasts := toasts w @ [storageWarning]\<rparr>)"
    by (simp_all add: fallbackMode_def serverMode_def)
  from m have wc: "snd (write_core w e d None) =
      snd (write_local (w\<lparr>toasts := toasts w @ [storageWarning]\<rparr>) e d None)"
    by (simp add: fallbackMode_def write_core_def write_server_def fetch_post_def Let_def
        write_local_roomy)
  show ?thesis
    using persisted_write_local [OF ns assms(3) r] by (simp add: wc)
qed

lemma updateMetadata_setup: "sameSetup w (updateMetadata w)"
proof -
  have a: "sameSetup w (w\<lparr>ticks := Suc (ticks w)\<rparr>)" by (simp add: sameSetup_def)
  have b: "\<And>m. sameSetup w (snd (write_core (w\<lparr>ticks := Suc (ticks w)\<rparr>) ''metadata'' m None))"
    using sameSetup_trans [OF a write_core_setup] .
  show ?thesis
    using a b by (simp add: updateMetadata_def newDate_def Let_def split: option.splits json.splits)
qed

lemma updateMetadata_ticks: "ticks (updateMetadata w) = Suc (ticks w)"
  by (simp add: updateMetadata_def newDate_def Let_def write_core_ticks split: option.splits json.splits)

lemma stable_upd [simp]:
  "stable (w\<lparr>ticks := n\<rparr>) = stable w"
  "stable (w\<lparr>toasts := ts\<rparr>) = stable w"
  by (simp_all add: stable_def localMode_def serverMode_def fallbackMode_def)

lemma metadata_ok: "entity_ok ''metadata''"
  by (simp add: entity_ok_def sanitizedEntity_def entity_char_def)

lemma updateMetadata_persisted:
  assumes "stable w" "e' \<noteq> ''metadata''" "e' \<noteq> ''metadata_backup''"
  shows "persisted (updateMetadata w) e' = persisted w e'"
proof -
  have b: "\<And>m. persisted (snd (write_core (w\<lparr>ticks := Suc (ticks w)\<rparr>) ''metadata'' m None)) e' = persisted w e'"
    using assms by (simp add: write_core_persisted metadata_ok)
  show ?thesis
    using b by (simp add: updateMetadata_def newDate_def Let_def split: option.splits json.splits)
qed

lemma write_alt:
  "write w e d f =
     (case fst (write_core w e d f) of
        Inl x \<Rightarrow> (Inl x, snd (write_core w e d f))
      | Inr u \<Rightarrow> (Inr u, if isClient w \<and> e \<noteq> ''metadata'' then updateMetadata (snd (write_core w e d f))
                         else snd (write_core w e d f)))"
  by (cases "write_core w e d f") (auto simp add: write_def split: sum.splits)

lemma write_fst: "stable w \<Longrightarrow> entity_ok e \<Longrightarrow> fst (write w e d None) = Inr ()"
  by (simp add: write_alt write_core_fst)

lemma write_setup: "sameSetup w (snd (write w e d f))"
  using write_core_setup [of w e d f] updateMetadata_setup [of "snd (write_core w e d f)"]
  by (auto simp add: write_alt split: sum.splits intro: sameSetup_trans)

lemma write_stable: "stable w \<Longrightarrow> stable (snd (write w e d f))"
  using sameSetup_modes(4) [OF write_setup] by simp

lemma write_persisted:
  assumes "stable w" "entity_ok e" "e' \<noteq> e @ ''_backup''" "e' \<noteq> ''metadata''"
    "e' \<noteq> ''metadata_backup''" "e' = e \<longrightarrow> d \<noteq> JNull"
  shows "persisted (snd (write w e d None)) e' = (if e' = e then Some d else persisted w e')"
proof -
  have st: "stable (snd (write_core w e d None))"
    using sameSetup_modes(4) [OF write_core_setup] assms(1) by simp
  show ?thesis
    using write_core_fst [OF assms(1,2), of d] write_core_persisted [OF assms(1-3) assms(6)]
      updateMetadata_persisted [OF st assms(4,5)]
    by (auto simp add: write_alt)
qed


lemma write_ticks:
  "fst (write_core w e d f) = Inr () \<Longrightarrow> isClient w \<Longrightarrow> e \<noteq> ''metadata'' \<Longrightarrow>
   ticks (snd (write w e d f)) = Suc (ticks w)"
  by (simp add: write_alt updateMetadata_ticks write_core_ticks)

lemma those_map_Some: "those (map (\<lambda>x. Some (f x)) xs) = Some (map f xs)"
  by (induction xs) simp_all

lemma as_array_todos [simp]: "as_array un_todo (JArr (map JTodo ts)) = Some ts"
  using those_map_Some [of id ts] by (simp add: comp_def)

lemma as_array_projects [simp]: "as_array un_project (JArr (map JProject ps)) = Some ps"
  using those_map_Some [of id ps] by (simp add: comp_def)

lemma those_map_inj:
  assumes "\<And>x y. f x = Some y \<Longrightarrow> x = g y"
  shows "those (map f xs) = Some ys \<Longrightarrow> xs = map g ys"
proof (induction xs arbitrary: ys)
  case Nil
  then show ?case by simp
next
  case (Cons x xs)
  then show ?case
    using assms by (auto split: option.splits)
qed

lemma as_array_todos_D: "as_array un_todo d = Some ts \<Longrightarrow> d = JArr (map JTodo ts)"
proof (cases d)
  case (JArr xs)
  assume "as_array un_todo d = Some ts"
  then have "those (map un_todo xs) = Some ts" using JArr by simp
  then have "xs = map JTodo ts"
  proof (rule those_map_inj [rotated])
    fix x y show "un_todo x = Some y \<Longrightarrow> x = JTodo y" by (cases x) simp_all
  qed
  then show ?thesis using JArr by simp
qed simp_all

lemma as_array_projects_D: "as_array un_project d = Some ps \<Longrightarrow> d = JArr (map JProject ps)"
proof (cases d)
  case (JArr xs)
  assume "as_array un_project d = Some ps"
  then have "those (map un_project xs) = Some ps" using JArr by simp
  then have "xs = map JProject ps"
  proof (rule those_map_inj [rotated])
    fix x y show "un_project x = Some y \<Longrightarrow> x = JProject y" by (cases x) simp_all
  qed
  then show ?thesis using JArr by simp
qed simp_all

lemma todos_ok: "entity_ok ''todos''"
  by (simp add: entity_ok_def sanitizedEntity_def entity_char_def)

lemma projects_ok: "entity_ok ''projects''"
  by (simp add: entity_ok_def sanitizedEntity_def entity_char_def)

lemma getTodos_stable:
  "stable w \<Longrightarrow> getTodos w = (case persisted w ''todos'' of None \<Rightarrow> JArr [] | Some d \<Rightarrow> d)"
  by (simp add: getTodos_def read_stable todos_ok getEmptyDataByEntityType_def split: option.splits)

lemma getProjects_stable:
  "stable w \<Longrightarrow> getProjects w = (case persisted w ''projects'' of None \<Rightarrow> JArr [] | Some d \<Rightarrow> d)"
  by (simp add: getProjects_def read_stable projects_ok getEmptyDataByEntityType_def split: option.splits)

lemma write_todos:
  assumes "stable w"
  shows "fst (write w ''todos'' d None) = Inr ()"
    and "stable (snd (write w ''todos'' d None))"
    and "getTodos (snd (write w ''todos'' (JArr xs) None)) = JArr xs"
    and "getProjects (snd (write w ''todos'' d None)) = getProjects w"
  using assms
  by (simp_all add: write_fst todos_ok write_stable getTodos_stable getProjects_stable write_persisted)

lemma write_projects:
  assumes "stable w"
  shows "fst (write w ''projects'' d None) = Inr ()"
    and "stable (snd (write w ''projects'' d None))"
    and "getProjects (snd (write w ''projects'' (JArr xs) None)) = JArr xs"
    and "getTodos (snd (write w ''projects'' d None)) = getTodos w"
  using assms
  by (simp_all add: write_fst projects_ok write_stable getTodos_stable getProjects_stable write_persisted)


lemma findIndex_Some:
  "findIndex P xs = Some i \<Longrightarrow> i < length xs \<and> P (xs ! i) \<and> (\<forall>j<i. \<not> P (xs ! j))"
proof (induction xs arbitrary: i)
  case Nil
  then show ?case by simp
next
  case (Cons x xs)
  show ?case
  proof (cases "P x")
    case True
    with Cons.prems show ?thesis by simp
  next
    case False
    with Cons.prems obtain k where k: "findIndex P xs = Some k" "i = Suc k"
      by (auto split: if_splits)
    from Cons.IH [OF k(1)] False k(2) show ?thesis
      by (auto simp: nth_Cons split: nat.splits)
  qed
qed

lemma findIndex_None: "(findIndex P xs = None) = (\<forall>x\<in>set xs. \<not> P x)"
  by (induction xs) auto

lemma findIndex_find:
  "findIndex P xs = Some i \<Longrightarrow> find P xs = Some (xs ! i)"
  by (induction xs arbitrary: i) (auto split: if_splits)

lemma find_None_findIndex: "(find P xs = None) = (findIndex P xs = None)"
  by (auto simp add: find_None_iff findIndex_None)

lemma find_update:
  assumes "findIndex P xs = Some i" "P y"
  shows "find P (xs[i := y]) = Some y" "findIndex P (xs[i := y]) = Some i"
  using assms
  by (induction xs arbitrary: i) (auto split: if_splits)

lemma validateTodo_setup: "parseDate w' = parseDate w \<Longrightarrow> validateTodo w' t = validateTodo w t"
  by (simp add: validateTodo_def validateTodoFields_def)

lemma validateProject_setup: "parseDate w' = parseDate w \<Longrightarrow> validateProject w' p = validateProject w p"
  by (simp add: validateProject_def)

lemma fetch_get_ticks: "fetch_get (w\<lparr>ticks := n\<rparr>) e f = fetch_get w e f"
  by (auto simp add: fetch_get_def routed_def GET_def readData_def split: network.splits)

lemma read_server_ticks: "read_server (w\<lparr>ticks := n\<rparr>) e f = read_server w e f"
  by (auto simp add: read_server_def fetch_get_ticks split: sum.splits response.splits)

lemma read_local_ticks: "read_local (w\<lparr>ticks := n\<rparr>) e f = read_local w e f"
  by (simp add: read_local_def)

lemma read_ticks [simp]: "read (w\<lparr>ticks := n\<rparr>) e f = read w e f"
  by (simp add: read_def read_server_ticks read_local_ticks cong: flow.case_cong)

lemma getters_ticks [simp]:
  "getTodos (w\<lparr>ticks := n\<rparr>) = getTodos w"
  "getProjects (w\<lparr>ticks := n\<rparr>) = getProjects w"
  by (simp_all add: getTodos_def getProjects_def)

lemma case_result:
  "fst r = Inr () \<Longrightarrow>
   (case r of (Inl e, w2) \<Rightarrow> f e w2 | (Inr u, w2) \<Rightarrow> g u w2) = g () (snd r)"
  by (cases r) auto

lemma updateTodo_unfold:
  assumes "stable w" "as_array un_todo (getTodos w) = Some todos"
    "findIndex (\<lambda>todo. t_id todo = ident) todos = Some i"
  shows "updateTodo w ident patch =
     (let w1 = w\<lparr>ticks := Suc (ticks w)\<rparr>;
          t' = applyTodoPatch (todos ! i) patch (clock w (ticks w))
      in case validateTodo w t' of
           Inl e \<Rightarrow> (Inl e, w1)
         | Inr u \<Rightarrow> (Inr t', snd (write w1 ''todos'' (JArr (map JTodo (todos[i := t']))) None)))"
proof -
  have st: "stable (w\<lparr>ticks := Suc (ticks w)\<rparr>)" using assms(1) by simp
  have v: "\<And>t. validateTodo (w\<lparr>ticks := Suc (ticks w)\<rparr>) t = validateTodo w t"
    by (rule validateTodo_setup) simp
  show ?thesis
    using assms(2,3)
    by (simp add: updateTodo_def newDate_def Let_def v case_result [OF write_todos(1) [OF st]]
        split: sum.splits)
qed

lemma updateProject_unfold:
  assumes "stable w" "as_array un_project (getProjects w) = Some ps"
    "findIndex (\<lambda>project. p_id project = ident) ps = Some i"
  shows "updateProject w ident patch =
     (let w1 = w\<lparr>ticks := Suc (ticks w)\<rparr>;
          p' = applyProjectPatch (ps ! i) patch ident (clock w (ticks w))
      in case validateProject w p' of
           Inl e \<Rightarrow> (Inl e, w1)
         | Inr u \<Rightarrow> (Inr p', snd (write w1 ''projects'' (JArr (map JProject (ps[i := p']))) None)))"
proof -
  have st: "stable (w\<lparr>ticks := Suc (ticks w)\<rparr>)" using assms(1) by simp
  have v: "\<And>t. validateProject (w\<lparr>ticks := Suc (ticks w)\<rparr>) t = validateProject w t"
    by (rule validateProject_setup) simp
  show ?thesis
    using assms(2,3)
    by (simp add: updateProject_def newDate_def Let_def v case_result [OF write_projects(1) [OF st]]
        split: sum.splits)
qed

section \<open>Facts about quiet hours\<close>

lemma of_char_digit: "d < 10 \<Longrightarrow> (of_char (digit_char d) :: nat) = 48 + d"
  by (simp add: digit_char_def)

lemma digit_char_props:
  assumes "d < 10"
  shows "is_digit (digit_char d)" "\<not> is_space (digit_char d)" "digit_char d \<noteq> CHR '':''"
    "digit_char d \<noteq> CHR ''-''" "digit_char d \<noteq> CHR ''+''" "digit_value (digit_char d) = int d"
proof -
  note o = of_char_digit [OF assms]
  show "is_digit (digit_char d)" using assms by (simp add: is_digit_def o)
  show "\<not> is_space (digit_char d)" using assms by (simp add: is_space_def o)
  show "digit_value (digit_char d) = int d" by (simp add: digit_value_def o)
  have "(of_char (digit_char d) :: nat) \<noteq> of_char CHR '':''" using assms by (simp add: o)
  then show "digit_char d \<noteq> CHR '':''" by auto
  have "(of_char (digit_char d) :: nat) \<noteq> of_char CHR ''-''" using assms by (simp add: o)
  then show "digit_char d \<noteq> CHR ''-''" by auto
  have "(of_char (digit_char d) :: nat) \<noteq> of_char CHR ''+''" using assms by (simp add: o)
  then show "digit_char d \<noteq> CHR ''+''" by auto
qed

lemma bit_length_le: "n < 2 ^ k \<Longrightarrow> bit_length n \<le> k"
proof (induction k arbitrary: n)
  case 0
  then show ?case by (simp add: bit_length.simps)
next
  case (Suc k)
  show ?case
  proof (cases "n \<le> 0")
    case True
    then show ?thesis by (simp add: bit_length.simps)
  next
    case False
    from Suc.prems have "n div 2 < 2 ^ k" by simp
    from Suc.IH [OF this] False show ?thesis
      by (subst bit_length.simps) simp
  qed
qed

lemma to_number_small: "\<bar>n\<bar> < 2 ^ 53 \<Longrightarrow> to_number n = Finite n"
proof -
  assume a: "\<bar>n\<bar> < 2 ^ 53"
  then have k: "int (bit_length \<bar>n\<bar>) - 53 \<le> 0"
    using bit_length_le [of "\<bar>n\<bar>" 53] by simp
  have "(2 :: int) ^ 53 < 2 ^ 1024" by simp
  with a have b: "\<not> 2 ^ 1024 \<le> \<bar>n\<bar>" by linarith
  have "to_number n = Finite (if n < 0 then - \<bar>n\<bar> else \<bar>n\<bar>)"
    by (simp only: to_number_def Let_def k b if_True if_False)
  then show ?thesis by simp
qed

lemma parseInt_two_digits:
  assumes "a < 10" "b < 10"
  shows "parseInt [digit_char a, digit_char b] = Finite (10 * int a + int b)"
proof -
  have "\<bar>10 * int a + int b\<bar> < 2 ^ 53" using assms by simp
  from to_number_small [OF this] show ?thesis
    using digit_char_props [OF assms(1)] digit_char_props [OF assms(2)]
    by (simp add: parseInt_def Let_def)
qed

lemma split_hhmm:
  assumes "h < 100" "m < 100"
  shows "split_on CHR '':'' (hhmm h m) =
           [[digit_char (h div 10), digit_char (h mod 10)], [digit_char (m div 10), digit_char (m mod 10)]]"
proof -
  have "h div 10 < 10" "h mod 10 < 10" "m div 10 < 10" "m mod 10 < 10" using assms by auto
  then show ?thesis
    using digit_char_props(3) by (simp add: hhmm_def)
qed

lemma minutes_hhmm:
  assumes "h < 100" "m < 100"
  shows "js_add (js_mul (parseInt (split_on CHR '':'' (hhmm h m) ! 0)) (Finite 60))
                (parseInt (split_on CHR '':'' (hhmm h m) ! 1)) = Finite (60 * int h + int m)"
proof -
  have d: "h div 10 < 10" "h mod 10 < 10" "m div 10 < 10" "m mod 10 < 10" using assms by auto
  have e: "10 * int (h div 10) + int (h mod 10) = int h" "10 * int (m div 10) + int (m mod 10) = int m"
    by (simp_all add: zdiv_int zmod_int)
  have s: "\<bar>int h * 60\<bar> < 2 ^ 53" "\<bar>int h * 60 + int m\<bar> < 2 ^ 53" using assms by simp_all
  show ?thesis
    using e by (simp add: split_hhmm [OF assms] parseInt_two_digits d to_number_small [OF s(1)]
        to_number_small [OF s(2)] mult.commute)
qed

lemma isInQuietHours_hhmm:
  assumes "h1 < 100" "m1 < 100" "h2 < 100" "m2 < 100"
  shows "isInQuietHours (p\<lparr>quietHoursStart := Some (hhmm h1 m1), quietHoursEnd := Some (hhmm h2 m2)\<rparr>) H M
         = inInterval (60 * int h1 + int m1) (60 * int h2 + int m2) (60 * int H + int M)"
proof -
  have t: "truthy (Some (hhmm h1 m1))" "truthy (Some (hhmm h2 m2))"
    by (simp_all add: truthy_def hhmm_def)
  have l: "length (split_on CHR '':'' (hhmm h1 m1)) = 2" "length (split_on CHR '':'' (hhmm h2 m2)) = 2"
    by (simp_all add: split_hhmm assms)
  show ?thesis
    using t l minutes_hhmm [OF assms(1,2)] minutes_hhmm [OF assms(3,4)]
    by (simp add: isInQuietHours_def Let_def inInterval_def js_ge_def mult.commute)
qed

lemmas qh_eval = isInQuietHours_def truthy_def parseInt_def is_space_def is_digit_def digit_value_def
  to_number_small js_ge_def Let_def

section \<open>Facts about what a write leaves behind\<close>

lemma read_total: "\<exists>d. read w entity filename = Inr d"
  by (simp add: read_def split: sum.splits)

lemma fetch_post_local:
  "localStorage (snd (fetch_post w e f d)) = localStorage w"
  "toasts (snd (fetch_post w e f d)) = toasts w"
  "isClient (snd (fetch_post w e f d)) = isClient w"
  by (simp_all add: fetch_post_def POST_def split: network.splits)

lemma write_server_local:
  "localStorage (snd (write_server w e d f)) = localStorage w"
  "set (toasts w) \<subseteq> set (toasts (snd (write_server w e d f)))"
  "isClient (snd (write_server w e d f)) = isClient w"
  using fetch_post_local [of w e f d]
  by (cases "fetch_post w e f d"; auto simp add: write_server_def Let_def split: sum.splits response.splits)+

lemma setItem_local:
  "k \<noteq> key \<Longrightarrow> localStorage (snd (setItem w key v)) k = localStorage w k"
  "toasts (snd (setItem w key v)) = toasts w"
  "getStorageKey (snd (setItem w key v)) e f = getStorageKey w e f"
  by (simp_all add: setItem_def)

lemma write_local_local:
  "k \<noteq> getStorageKey w e f \<Longrightarrow> k \<noteq> getStorageKey w e f @ ''_backup'' \<Longrightarrow>
   localStorage (snd (write_local w e d f)) k = localStorage w k"
  "toasts (snd (write_local w e d f)) = toasts w"
proof -
  let ?k = "getStorageKey w e f"
  let ?b = "setItem w (?k @ ''_backup'') (the (localStorage w ?k))"
  have alt: "snd (write_local w e d f) =
      (if raw_truthy (localStorage w ?k)
       then (case fst ?b of Inl x \<Rightarrow> snd ?b | Inr u \<Rightarrow> snd (setItem (snd ?b) ?k (Text d)))
       else snd (setItem w ?k (Text d)))"
    by (cases ?b) (auto simp add: write_local_def Let_def split: sum.splits)
  show "toasts (snd (write_local w e d f)) = toasts w"
    by (simp add: alt setItem_local split: sum.splits)
  assume "k \<noteq> ?k" "k \<noteq> ?k @ ''_backup''"
  then show "localStorage (snd (write_local w e d f)) k = localStorage w k"
    by (simp add: alt setItem_local split: sum.splits)
qed

lemma key_isClient: "isClient w' = isClient w \<Longrightarrow> getStorageKey w' e f = getStorageKey w e f"
  by (simp add: getStorageKey_def basePath_def)

lemma write_core_localStorage:
  assumes "k \<noteq> getStorageKey w e f" "k \<noteq> getStorageKey w e f @ ''_backup''"
  shows "localStorage (snd (write_core w e d f)) k = localStorage w k"
proof -
  have k': "getStorageKey (snd (write_server w e d f)) e f = getStorageKey w e f"
    by (rule key_isClient) (simp add: write_server_local)
  from write_core_cases [of w e d f] show ?thesis
    using assms write_server_local(1) [of w e d f] k'
    by (auto simp add: write_local_local)
qed

lemma write_core_toasts: "set (toasts w) \<subseteq> set (toasts (snd (write_core w e d f)))"
  using write_core_cases [of w e d f] write_server_local(2) [of w e d f]
  by (auto simp add: write_local_local)

lemma updateMetadata_localStorage:
  assumes "k \<noteq> getStorageKey w ''metadata'' None" "k \<noteq> getStorageKey w ''metadata'' None @ ''_backup''"
  shows "localStorage (updateMetadata w) k = localStorage w k"
proof -
  have b: "\<And>m. localStorage (snd (write_core (w\<lparr>ticks := Suc (ticks w)\<rparr>) ''metadata'' m None)) k
              = localStorage w k"
    using assms by (simp add: write_core_localStorage)
  show ?thesis
    using b by (simp add: updateMetadata_def newDate_def Let_def split: option.splits json.splits)
qed

lemma updateMetadata_cases:
  "updateMetadata w = w\<lparr>ticks := Suc (ticks w)\<rparr> \<or>
   (\<exists>m. updateMetadata w = snd (write_core (w\<lparr>ticks := Suc (ticks w)\<rparr>) ''metadata'' m None))"
  by (auto simp add: updateMetadata_def newDate_def Let_def split: option.splits json.splits)

lemma updateMetadata_toasts: "set (toasts w) \<subseteq> set (toasts (updateMetadata w))"
proof -
  have b: "\<And>m. set (toasts w) \<subseteq> set (toasts (snd (write_core (w\<lparr>ticks := Suc (ticks w)\<rparr>) ''metadata'' m None)))"
    using write_core_toasts [of "w\<lparr>ticks := Suc (ticks w)\<rparr>"] by simp
  from updateMetadata_cases [of w] show ?thesis
  proof
    assume "updateMetadata w = w\<lparr>ticks := Suc (ticks w)\<rparr>"
    then show ?thesis by simp
  next
    assume "\<exists>m. updateMetadata w = snd (write_core (w\<lparr>ticks := Suc (ticks w)\<rparr>) ''metadata'' m None)"
    then obtain m where "updateMetadata w = snd (write_core (w\<lparr>ticks := Suc (ticks w)\<rparr>) ''metadata'' m None)" ..
    then show ?thesis using b [of m] by simp
  qed
qed

lemma write_core_fallback:
  assumes "isClient w" "useServerStorage (config w)" "fallbackToLocalStorage (config w)"
    "post_fails w entity filename d"
  shows "write_core w entity d filename =
           (case write_local (snd (fetch_post w entity filename d)
                              \<lparr>toasts := toasts (snd (fetch_post w entity filename d)) @ [storageWarning]\<rparr>)
                   entity d filename of
              (Inl e, w2) \<Rightarrow> (Inl (Error (''Failed to save '' @ entity @ '' data'')), w2)
            | (Inr u, w2) \<Rightarrow> (Inr (), w2))"
  using assms
  by (cases "fetch_post w entity filename d")
     (auto simp add: write_core_def write_server_def post_fails_def Let_def
      split: sum.splits response.splits)

lemma fetch_post_fails_same: "post_fails w entity filename d \<Longrightarrow> snd (fetch_post w entity filename d) = w"
  by (auto simp add: post_fails_def fetch_post_def POST_def response_ok_def
      split: network.splits if_splits)

lemma key_not_metadata:
  assumes "entity \<noteq> ''metadata''"
  shows "getStorageKey w entity filename \<noteq> getStorageKey w ''metadata'' None"
proof
  assume eq: "getStorageKey w entity filename = getStorageKey w ''metadata'' None"
  show False
  proof (cases "truthy filename")
    case False
    with eq assms show False by (simp add: getStorageKey_def)
  next
    case True
    with eq assms have "entity @ ''_'' @ the filename = ''metadata''"
      by (simp add: getStorageKey_def)
    then have "CHR ''_'' \<in> set ''metadata''"
      by (metis in_set_conv_decomp append_Cons append_Nil)
    then show False by simp
  qed
qed

lemma accepted_upd [simp]: "accepted (w\<lparr>toasts := ts\<rparr>) k v = accepted w k v"
  by (simp add: accepted_def)

lemma raw_truthy_Some: "raw_truthy x \<Longrightarrow> \<exists>v. x = Some v"
  by (cases x) (simp_all add: raw_truthy_def)

lemma write_local_accepted:
  assumes "accepted w (getStorageKey w e f) (Text d)"
  shows "fst (write_local w e d f) = Inr ()"
    and "localStorage (snd (write_local w e d f)) (getStorageKey w e f) = Some (Text d)"
proof -
  let ?k = "getStorageKey w e f"
  have "fst (write_local w e d f) = Inr () \<and> localStorage (snd (write_local w e d f)) ?k = Some (Text d)"
  proof (cases "raw_truthy (localStorage w ?k)")
    case False
    with assms have "\<not> refuses w (localStorage w) ?k (Text d)"
      by (simp add: accepted_def Let_def)
    with False show ?thesis
      by (simp add: write_local_def setItem_def Let_def)
  next
    case True
    then obtain v where v: "localStorage w ?k = Some v"
      using raw_truthy_Some by blast
    from assms True v have a: "\<not> refuses w (localStorage w) (?k @ ''_backup'') v"
      and b: "\<not> refuses w ((localStorage w)(?k @ ''_backup'' \<mapsto> v)) ?k (Text d)"
      by (simp_all add: accepted_def Let_def)
    show ?thesis
      using True v a b by (simp add: write_local_def setItem_def Let_def)
  qed
  then show "fst (write_local w e d f) = Inr ()"
    and "localStorage (snd (write_local w e d f)) (getStorageKey w e f) = Some (Text d)"
    by simp_all
qed

lemma write_local_refused:
  assumes "\<not> accepted w (getStorageKey w e f) (Text d)"
  shows "fst (write_local w e d f) = Inl (DOMException ''QuotaExceededError'')"
    and "localStorage (snd (write_local w e d f)) (getStorageKey w e f) = localStorage w (getStorageKey w e f)"
proof -
  let ?k = "getStorageKey w e f"
  have "fst (write_local w e d f) = Inl (DOMException ''QuotaExceededError'')
      \<and> localStorage (snd (write_local w e d f)) ?k = localStorage w ?k"
  proof (cases "raw_truthy (localStorage w ?k)")
    case False
    with assms have "refuses w (localStorage w) ?k (Text d)"
      by (simp add: accepted_def Let_def)
    with False show ?thesis
      by (simp add: write_local_def setItem_def Let_def)
  next
    case True
    then obtain v where v: "localStorage w ?k = Some v"
      using raw_truthy_Some by blast
    show ?thesis
    proof (cases "refuses w (localStorage w) (?k @ ''_backup'') v")
      case True
      then show ?thesis
        using \<open>raw_truthy (localStorage w ?k)\<close> v by (simp add: write_local_def setItem_def Let_def)
    next
      case False
      with assms \<open>raw_truthy (localStorage w ?k)\<close> v
      have b: "refuses w ((localStorage w)(?k @ ''_backup'' \<mapsto> v)) ?k (Text d)"
        by (simp add: accepted_def Let_def)
      show ?thesis
        using \<open>raw_truthy (localStorage w ?k)\<close> v False b
        by (simp add: write_local_def setItem_def Let_def)
    qed
  qed
  then show "fst (write_local w e d f) = Inl (DOMException ''QuotaExceededError'')"
    and "localStorage (snd (write_local w e d f)) (getStorageKey w e f) = localStorage w (getStorageKey w e f)"
    by simp_all
qed

lemma case_write_local:
  "fst (case r of (Inl e, w2) \<Rightarrow> (Inl (g e), w2) | (Inr u, w2) \<Rightarrow> (Inr (), w2)) =
     (case fst r of Inl e \<Rightarrow> Inl (g e) | Inr u \<Rightarrow> Inr ())"
  "snd (case r of (Inl e, w2) \<Rightarrow> (Inl (g e), w2) | (Inr u, w2) \<Rightarrow> (Inr (), w2)) = snd r"
  by (cases r; cases "fst r"; simp)+

lemma sample_keys:
  "getStorageKey (sampleWorld u n fs ls) ''todos'' None = ''taskflow_data_todos''"
  "getStorageKey (sampleWorld u n fs ls) ''metadata'' None @ ''_backup'' = ''taskflow_data_metadata_backup''"
  "getStorageKey fullWorld ''todos'' None = ''taskflow_data_todos''"
  by (simp_all add: getStorageKey_def basePath_def sampleWorld_def fullWorld_def truthy_def)

section \<open>Facts about reading\<close>

text \<open>\<open>read\<close> never throws (\<open>read_total\<close>, above); a 404 of the server, an absent item and an error without fallback give the empty value of the entity.\<close>

lemma getEmpty_collections:
  "getEmptyDataByEntityType ''todos'' = JArr []"
  "getEmptyDataByEntityType ''projects'' = JArr []"
  "getEmptyDataByEntityType ''notes'' = JArr []"
  "getEmptyDataByEntityType ''notifications'' = JArr []"
  "getEmptyDataByEntityType ''settings'' = defaultSettings"
  by (simp_all add: getEmptyDataByEntityType_def)

lemma getEmpty_versions: "getEmptyDataByEntityType (''note_versions_'' @ noteId) = JObj []"
  by (simp add: getEmptyDataByEntityType_def)

lemma read_server_404:
  "isClient w \<Longrightarrow> useServerStorage (config w) \<Longrightarrow> fetch_get w entity filename = Inr (Response 404 body) \<Longrightarrow>
   read w entity filename = Inr (getEmptyDataByEntityType entity)"
  by (simp add: read_def read_server_def response_ok_def)

lemma read_local_absent:
  "isClient w \<Longrightarrow> \<not> useServerStorage (config w) \<Longrightarrow> localStorage w (getStorageKey w entity filename) = None \<Longrightarrow>
   read w entity filename = Inr (getEmptyDataByEntityType entity)"
  by (simp add: read_def read_local_def)

lemma read_error:
  "isClient w \<Longrightarrow> useServerStorage (config w) \<Longrightarrow> \<not> fallbackToLocalStorage (config w) \<Longrightarrow>
   fetch_get w entity filename = Inl e \<Longrightarrow>
   read w entity filename = Inr (getEmptyDataByEntityType entity)"
  by (simp add: read_def read_server_def)

section \<open>Facts about deletion and evaluation\<close>

lemma filter_absent: "ident \<notin> set (map f xs) \<Longrightarrow> filter (\<lambda>x. f x \<noteq> ident) xs = xs"
  by (induction xs) auto

lemma notFound_isNotFound: "isNotFoundError (notFound kind ident)"
  by (simp add: isNotFoundError_def notFound_def)

lemmas read_eval = read_def read_server_def read_local_def fetch_get_def routed_def GET_def readData_def
  sanitizedEntity_def entity_char_def truthy_def response_ok_def getStorageKey_def basePath_def
  getEmptyDataByEntityType_def

lemma serverWorld_reads:
  "getTodos serverWorld = JArr [JTodo (sampleTodo ''t1'' ''pending'' None)]"
  "getProjects serverWorld = JArr [JProject (sampleProject ''p1'' [] 0)]"
  "getNotes serverWorld = Inr (JArr [JNote (sampleNote ''n1'')])"
  "getNotifications serverWorld = JArr [JNotification (sampleNotification ''m1'')]"
  by (simp_all add: getTodos_def getProjects_def getNotes_def getNotifications_def serverWorld_def
      sampleWorld_def read_eval)

section \<open>Facts about the todo service\<close>

lemma those_un [simp]:
  "those (map (un_todo \<circ> JTodo) ts) = Some ts"
  "those (map (un_project \<circ> JProject) ps) = Some ps"
  "those (map (un_note \<circ> JNote) ns) = Some ns"
  using those_map_Some [of id ts] those_map_Some [of id ps] those_map_Some [of id ns]
  by (simp_all add: comp_def)




lemma todoWorld_stable: "stable todoWorld"
  by (simp add: stable_def localMode_def roomy_def todoWorld_def sampleWorld_def)

lemma todoWorld_todos:
  "getTodos todoWorld = JArr [JTodo (sampleTodo ''t1'' ''pending'' None), JTodo (sampleTodo ''t2'' ''pending'' None)]"
  by (simp add: getTodos_def todoWorld_def sampleWorld_def read_eval)

section \<open>Facts about the project service\<close>

lemma find_findIndex:
  "find P xs = (case findIndex P xs of None \<Rightarrow> None | Some i \<Rightarrow> Some (xs ! i))"
  by (induction xs) (auto split: option.splits)

lemma getProjectById_iff:
  "(getProjectById w p = Some p0) =
   (\<exists>ps i. as_array un_project (getProjects w) = Some ps \<and>
            findIndex (\<lambda>project. p_id project = p) ps = Some i \<and> ps ! i = p0)"
  by (auto simp add: getProjectById_def find_findIndex split: option.splits)

lemma getTodoById_iff:
  "(getTodoById w t = Some t0) =
   (\<exists>ts i. as_array un_todo (getTodos w) = Some ts \<and>
            findIndex (\<lambda>todo. t_id todo = t) ts = Some i \<and> ts ! i = t0)"
  by (auto simp add: getTodoById_def find_findIndex split: option.splits)

lemma getProjectById_id: "getProjectById w p = Some p0 \<Longrightarrow> p_id p0 = p"
  using findIndex_Some by (fastforce simp add: getProjectById_iff)

lemma getTodoById_id: "getTodoById w t = Some t0 \<Longrightarrow> t_id t0 = t"
  using findIndex_Some by (fastforce simp add: getTodoById_iff)

lemma getById_cong:
  "getProjects w' = getProjects w \<Longrightarrow> getProjectById w' p = getProjectById w p"
  "getTodos w' = getTodos w \<Longrightarrow> getTodoById w' t = getTodoById w t"
  "getTodos w' = getTodos w \<Longrightarrow> getTodosByProject w' p = getTodosByProject w p"
  by (simp_all add: getProjectById_def getTodoById_def getTodosByProject_def)

lemma updateProject_none:
  "getProjectById w p = None \<Longrightarrow> \<exists>e. updateProject w p patch = (Inl e, w)"
  by (auto simp add: getProjectById_def updateProject_def find_findIndex split: option.splits)

lemma updateTodo_none:
  "getTodoById w t = None \<Longrightarrow> \<exists>e. updateTodo w t patch = (Inl e, w)"
  by (auto simp add: getTodoById_def updateTodo_def find_findIndex split: option.splits)

lemma sameSetup_ticks [simp]: "sameSetup w (w\<lparr>ticks := n\<rparr>)"
  by (simp add: sameSetup_def)

lemma write_sameSetup_ticks:
  "sameSetup w (snd (write (w\<lparr>ticks := n\<rparr>) e d f))"
proof -
  have "sameSetup w (w\<lparr>ticks := n\<rparr>)" by (simp add: sameSetup_def)
  then show ?thesis using write_setup sameSetup_trans by blast
qed

lemma updateProject_some:
  assumes "stable w" "getProjectById w p = Some p0"
  shows "validateProject w (applyProjectPatch p0 patch p (clock w (ticks w))) = Inl e \<Longrightarrow>
           updateProject w p patch = (Inl e, w\<lparr>ticks := Suc (ticks w)\<rparr>)"
    and "validateProject w (applyProjectPatch p0 patch p (clock w (ticks w))) = Inr () \<Longrightarrow>
           fst (updateProject w p patch) = Inr (applyProjectPatch p0 patch p (clock w (ticks w))) \<and>
           getProjectById (snd (updateProject w p patch)) p
             = Some (applyProjectPatch p0 patch p (clock w (ticks w)))"
    and "stable (snd (updateProject w p patch))"
    and "getTodos (snd (updateProject w p patch)) = getTodos w"
    and "sameSetup w (snd (updateProject w p patch))"
proof -
  from assms(2) obtain ps i where ps: "as_array un_project (getProjects w) = Some ps"
    "findIndex (\<lambda>project. p_id project = p) ps = Some i" "ps ! i = p0"
    by (auto simp add: getProjectById_iff)
  let ?w1 = "w\<lparr>ticks := Suc (ticks w)\<rparr>"
  let ?p = "applyProjectPatch p0 patch p (clock w (ticks w))"
  have st: "stable ?w1" using assms(1) by simp
  note u = updateProject_unfold [OF assms(1) ps(1,2), of patch, unfolded ps(3)]
  show "validateProject w ?p = Inl e \<Longrightarrow> updateProject w p patch = (Inl e, ?w1)"
    by (simp add: u Let_def)
  have pid: "p_id ?p = p" by (simp add: applyProjectPatch_def)
  show "validateProject w ?p = Inr () \<Longrightarrow>
           fst (updateProject w p patch) = Inr ?p \<and>
           getProjectById (snd (updateProject w p patch)) p = Some ?p"
    using find_update(1) [OF ps(2), of ?p] pid
    by (simp add: u Let_def getProjectById_def write_projects(3) [OF st])
  show "stable (snd (updateProject w p patch))"
    using assms(1) by (simp add: u Let_def write_projects(2) [OF st] split: sum.splits)
  show "getTodos (snd (updateProject w p patch)) = getTodos w"
    by (simp add: u Let_def write_projects(4) [OF st] split: sum.splits)
  show "sameSetup w (snd (updateProject w p patch))"
    by (simp add: u Let_def write_sameSetup_ticks split: sum.splits)
qed

lemma updateTodo_some:
  assumes "stable w" "getTodoById w t = Some t0"
  shows "validateTodo w (applyTodoPatch t0 patch (clock w (ticks w))) = Inl e \<Longrightarrow>
           updateTodo w t patch = (Inl e, w\<lparr>ticks := Suc (ticks w)\<rparr>)"
    and "validateTodo w (applyTodoPatch t0 patch (clock w (ticks w))) = Inr () \<Longrightarrow>
           fst (updateTodo w t patch) = Inr (applyTodoPatch t0 patch (clock w (ticks w))) \<and>
           getTodoById (snd (updateTodo w t patch)) t
             = Some (applyTodoPatch t0 patch (clock w (ticks w)))"
    and "stable (snd (updateTodo w t patch))"
    and "getProjects (snd (updateTodo w t patch)) = getProjects w"
    and "sameSetup w (snd (updateTodo w t patch))"
proof -
  from assms(2) obtain ts i where ts: "as_array un_todo (getTodos w) = Some ts"
    "findIndex (\<lambda>todo. t_id todo = t) ts = Some i" "ts ! i = t0"
    by (auto simp add: getTodoById_iff)
  let ?w1 = "w\<lparr>ticks := Suc (ticks w)\<rparr>"
  let ?t = "applyTodoPatch t0 patch (clock w (ticks w))"
  have st: "stable ?w1" using assms(1) by simp
  note u = updateTodo_unfold [OF assms(1) ts(1,2), of patch, unfolded ts(3)]
  show "validateTodo w ?t = Inl e \<Longrightarrow> updateTodo w t patch = (Inl e, ?w1)"
    by (simp add: u Let_def)
  have tid: "t_id ?t = t" using findIndex_Some [OF ts(2)] ts(3) by (simp add: applyTodoPatch_def)
  show "validateTodo w ?t = Inr () \<Longrightarrow>
           fst (updateTodo w t patch) = Inr ?t \<and>
           getTodoById (snd (updateTodo w t patch)) t = Some ?t"
    using find_update(1) [OF ts(2), of ?t] tid
    by (simp add: u Let_def getTodoById_def write_todos(3) [OF st])
  show "stable (snd (updateTodo w t patch))"
    using assms(1) by (simp add: u Let_def write_todos(2) [OF st] split: sum.splits)
  show "getProjects (snd (updateTodo w t patch)) = getProjects w"
    by (simp add: u Let_def write_todos(4) [OF st] split: sum.splits)
  show "sameSetup w (snd (updateTodo w t patch))"
    by (simp add: u Let_def write_sameSetup_ticks split: sum.splits)
qed

lemma updateProject_frame:
  assumes "stable w"
  shows "stable (snd (updateProject w p patch))"
    and "getTodos (snd (updateProject w p patch)) = getTodos w"
    and "sameSetup w (snd (updateProject w p patch))"
proof -
  show "stable (snd (updateProject w p patch))"
  proof (cases "getProjectById w p")
    case None
    from updateProject_none [OF None, of patch] assms show ?thesis by auto
  next
    case (Some p0)
    from updateProject_some(3) [OF assms Some] show ?thesis .
  qed
  show "getTodos (snd (updateProject w p patch)) = getTodos w"
  proof (cases "getProjectById w p")
    case None
    from updateProject_none [OF None, of patch] show ?thesis by auto
  next
    case (Some p0)
    from updateProject_some(4) [OF assms Some] show ?thesis .
  qed
  show "sameSetup w (snd (updateProject w p patch))"
  proof (cases "getProjectById w p")
    case None
    from updateProject_none [OF None, of patch] show ?thesis by auto
  next
    case (Some p0)
    from updateProject_some(5) [OF assms Some] show ?thesis .
  qed
qed

lemma updateProject_success:
  assumes "stable w" "updateProject w p patch = (Inr p', w')"
  shows "\<exists>p0. getProjectById w p = Some p0 \<and> p' = applyProjectPatch p0 patch p (clock w (ticks w))"
    and "getProjectById w' p = Some p'"
proof -
  obtain p0 where p0: "getProjectById w p = Some p0"
    using updateProject_none [of w p patch] assms(2) by (cases "getProjectById w p") auto
  let ?p = "applyProjectPatch p0 patch p (clock w (ticks w))"
  have v: "validateProject w ?p = Inr ()"
  proof (cases "validateProject w ?p")
    case (Inl e)
    from updateProject_some(1) [OF assms(1) p0 Inl] assms(2) show ?thesis by simp
  qed simp
  from updateProject_some(2) [OF assms(1) p0 v] assms(2)
  show "\<exists>p0. getProjectById w p = Some p0 \<and> p' = applyProjectPatch p0 patch p (clock w (ticks w))"
    and "getProjectById w' p = Some p'"
    using p0 by auto
qed

lemma updateTodo_success:
  assumes "stable w" "updateTodo w t patch = (Inr t', w')"
  shows "getTodoById w' t = Some t'"
proof -
  obtain t0 where t0: "getTodoById w t = Some t0"
    using updateTodo_none [of w t patch] assms(2) by (cases "getTodoById w t") auto
  let ?t = "applyTodoPatch t0 patch (clock w (ticks w))"
  have v: "validateTodo w ?t = Inr ()"
  proof (cases "validateTodo w ?t")
    case (Inl e)
    from updateTodo_some(1) [OF assms(1) t0 Inl] assms(2) show ?thesis by simp
  qed simp
  from updateTodo_some(2) [OF assms(1) t0 v] assms(2) show ?thesis by auto
qed

lemma updateTodo_frame_gen:
  assumes "stable w"
  shows "stable (snd (updateTodo w t patch))"
    and "getProjects (snd (updateTodo w t patch)) = getProjects w"
proof -
  show "stable (snd (updateTodo w t patch))"
  proof (cases "getTodoById w t")
    case None
    from updateTodo_none [OF None, of patch] assms show ?thesis by auto
  next
    case (Some t0)
    from updateTodo_some(3) [OF assms Some] show ?thesis .
  qed
  show "getProjects (snd (updateTodo w t patch)) = getProjects w"
  proof (cases "getTodoById w t")
    case None
    from updateTodo_none [OF None, of patch] show ?thesis by auto
  next
    case (Some t0)
    from updateTodo_some(4) [OF assms Some] show ?thesis .
  qed
qed



lemma result_map:
  "(case r of (Inl e, w1) \<Rightarrow> (Inl e, w1) | (Inr x, w1) \<Rightarrow> (Inr y, w1)) =
   ((case fst r of Inl e \<Rightarrow> Inl e | Inr x \<Rightarrow> Inr y), snd r)"
  by (cases r) (auto split: sum.splits)

lemma updateProjectProgress_alt:
  "updateProjectProgress w p =
     (case getProjectById w p of
        None \<Rightarrow> (Inl (notFound ''Project'' p), w)
      | Some project \<Rightarrow>
          ((case fst (updateProject w p (no_project_patch\<lparr>pp_progress := Some (projectProgress w p project)\<rparr>)) of
              Inl e \<Rightarrow> Inl e | Inr x \<Rightarrow> Inr (projectProgress w p project)),
           snd (updateProject w p (no_project_patch\<lparr>pp_progress := Some (projectProgress w p project)\<rparr>))))"
  by (auto simp add: updateProjectProgress_def projectProgress_def Let_def result_map
      split: option.splits sum.splits)

lemma updateProjectProgress_frame:
  assumes "stable w"
  shows "stable (snd (updateProjectProgress w p))"
    and "getTodos (snd (updateProjectProgress w p)) = getTodos w"
    and "sameSetup w (snd (updateProjectProgress w p))"
  using assms updateProject_frame [OF assms]
  by (simp_all add: updateProjectProgress_alt split: option.splits)


lemma patched_fields:
  "p_todoIds (applyProjectPatch p0 (no_project_patch\<lparr>pp_progress := Some n\<rparr>) p now) = p_todoIds p0"
  "p_progress (applyProjectPatch p0 (no_project_patch\<lparr>pp_progress := Some n\<rparr>) p now) = n"
  "p_todoIds (applyProjectPatch p0 (no_project_patch\<lparr>pp_todoIds := Some ids\<rparr>) p now) = ids"
  "p_progress (applyProjectPatch p0 (no_project_patch\<lparr>pp_todoIds := Some ids\<rparr>) p now) = p_progress p0"
  "t_projectId (applyTodoPatch t0 (no_todo_patch\<lparr>tp_projectId := Some x\<rparr>) now) = x"
  "t_status (applyTodoPatch t0 (no_todo_patch\<lparr>tp_projectId := Some x\<rparr>) now) = t_status t0"
  by (simp_all add: applyProjectPatch_def applyTodoPatch_def no_project_patch_def no_todo_patch_def pick_def)

lemma validate_patched:
  "validateProject w (applyProjectPatch p0 (no_project_patch\<lparr>pp_progress := Some n\<rparr>) p now)
     = validateProject w p0"
  "validateProject w (applyProjectPatch p0 (no_project_patch\<lparr>pp_todoIds := Some ids\<rparr>) p now)
     = validateProject w p0"
  "validateTodo w (applyTodoPatch t0 (no_todo_patch\<lparr>tp_projectId := Some x\<rparr>) now) = validateTodo w t0"
  by (simp_all add: validateProject_def validateTodo_def applyProjectPatch_def applyTodoPatch_def
      no_project_patch_def no_todo_patch_def pick_def)

lemma addTodoToProject_twice:
  assumes "stable w"
    and "addTodoToProject w projectId todoId = (Inr project, w1)"
  shows "addTodoToProject w1 projectId todoId = (Inr project, w1)
       \<and> getProjectById w1 projectId = Some project
       \<and> todoId \<in> set (p_todoIds project)
       \<and> (\<exists>p0. getProjectById w projectId = Some p0 \<and>
               p_todoIds project = (if todoId \<in> set (p_todoIds p0) then p_todoIds p0
                                    else p_todoIds p0 @ [todoId]))"
proof -
  obtain p0 where p0: "getProjectById w projectId = Some p0"
    using assms(2) by (cases "getProjectById w projectId") (auto simp add: addTodoToProject_def)
  obtain t0 where t0: "getTodoById w todoId = Some t0"
    using assms(2) p0 by (cases "getTodoById w todoId") (auto simp add: addTodoToProject_def)
  show ?thesis
  proof (cases "todoId \<in> set (p_todoIds p0)")
    case True
    with assms(2) p0 t0 have "project = p0" "w1 = w"
      by (simp_all add: addTodoToProject_def)
    then show ?thesis using True p0 t0 by (simp add: addTodoToProject_def)
  next
    case False
    let ?tp = "no_todo_patch\<lparr>tp_projectId := Some (Some projectId)\<rparr>"
    let ?pp = "no_project_patch\<lparr>pp_todoIds := Some (p_todoIds p0 @ [todoId])\<rparr>"
    obtain r1 wa where u1: "updateTodo w todoId ?tp = (r1, wa)" by (cases "updateTodo w todoId ?tp")
    obtain r2 wb where u2: "updateProjectProgress wa projectId = (r2, wb)"
      by (cases "updateProjectProgress wa projectId")
    from assms(2) p0 t0 False u1 obtain t' where r1: "r1 = Inr t'"
      by (cases r1) (simp_all add: addTodoToProject_def Let_def)
    from assms(2) p0 t0 False u1 r1 u2 obtain n where r2: "r2 = Inr n"
      by (cases r2) (simp_all add: addTodoToProject_def Let_def)
    from assms(2) p0 t0 False u1 r1 u2 r2
    have u3: "updateProject wb projectId ?pp = (Inr project, w1)"
      by (simp add: addTodoToProject_def Let_def)
    have sa: "stable wa" using updateTodo_frame_gen(1) [OF assms(1), of todoId ?tp] u1 by simp
    have pa: "getProjects wa = getProjects w"
      using updateTodo_frame_gen(2) [OF assms(1), of todoId ?tp] u1 by simp
    have ta: "getTodoById wa todoId = Some t'"
      using updateTodo_success [OF assms(1)] u1 r1 by simp
    have sb: "stable wb" using updateProjectProgress_frame(1) [OF sa, of projectId] u2 by simp
    have tb: "getTodos wb = getTodos wa"
      using updateProjectProgress_frame(2) [OF sa, of projectId] u2 by simp
    have t1: "getTodos w1 = getTodos wb"
      using updateProject_frame(2) [OF sb, of projectId ?pp] u3 by simp
    have g1: "getProjectById w1 projectId = Some project"
      using updateProject_success(2) [OF sb u3] .
    from updateProject_success(1) [OF sb u3] obtain pb
      where pb: "getProjectById wb projectId = Some pb"
        "project = applyProjectPatch pb ?pp projectId (clock wb (ticks wb))" by auto
    have ids: "p_todoIds project = p_todoIds p0 @ [todoId]"
      by (simp add: pb(2) patched_fields)
    have g2: "getTodoById w1 todoId = Some t'"
      using ta getById_cong(2) [OF t1] getById_cong(2) [OF tb] by simp
    have "addTodoToProject w1 projectId todoId = (Inr project, w1)"
      using g1 g2 ids by (simp add: addTodoToProject_def)
    then show ?thesis using g1 ids p0 False by simp
  qed
qed


lemma updateProject_fail:
  assumes "stable w" "fst (updateProject w p patch) = Inl e"
  shows "getProjects (snd (updateProject w p patch)) = getProjects w"
proof (cases "getProjectById w p")
  case None
  from updateProject_none [OF None, of patch] show ?thesis by auto
next
  case (Some p0)
  show ?thesis
  proof (cases "validateProject w (applyProjectPatch p0 patch p (clock w (ticks w)))")
    case (Inl e')
    from updateProject_some(1) [OF assms(1) Some Inl] show ?thesis by simp
  next
    case (Inr u)
    from updateProject_some(2) [OF assms(1) Some, of patch] Inr assms(2) show ?thesis by simp
  qed
qed

lemma updateProject_fail_iff:
  assumes "stable w" "getProjectById w p = Some p0"
  shows "(\<exists>e. fst (updateProject w p patch) = Inl e) =
         (\<exists>e. validateProject w (applyProjectPatch p0 patch p (clock w (ticks w))) = Inl e)"
proof (cases "validateProject w (applyProjectPatch p0 patch p (clock w (ticks w)))")
  case (Inl e')
  from updateProject_some(1) [OF assms Inl] Inl show ?thesis by simp
next
  case (Inr u)
  from updateProject_some(2) [OF assms, of patch] Inr show ?thesis by simp
qed

lemma updateTodo_fail_iff:
  assumes "stable w" "getTodoById w t = Some t0"
  shows "(\<exists>e. fst (updateTodo w t patch) = Inl e) =
         (\<exists>e. validateTodo w (applyTodoPatch t0 patch (clock w (ticks w))) = Inl e)"
proof (cases "validateTodo w (applyTodoPatch t0 patch (clock w (ticks w)))")
  case (Inl e')
  from updateTodo_some(1) [OF assms Inl] Inl show ?thesis by simp
next
  case (Inr u)
  from updateTodo_some(2) [OF assms, of patch] Inr show ?thesis by simp
qed

lemma updateTodo_fail:
  assumes "stable w" "fst (updateTodo w t patch) = Inl e"
  shows "getTodos (snd (updateTodo w t patch)) = getTodos w"
proof (cases "getTodoById w t")
  case None
  from updateTodo_none [OF None, of patch] show ?thesis by auto
next
  case (Some t0)
  show ?thesis
  proof (cases "validateTodo w (applyTodoPatch t0 patch (clock w (ticks w)))")
    case (Inl e')
    from updateTodo_some(1) [OF assms(1) Some Inl] show ?thesis by simp
  next
    case (Inr u)
    from updateTodo_some(2) [OF assms(1) Some, of patch] Inr assms(2) show ?thesis by simp
  qed
qed

lemma sameSetup_validate:
  "sameSetup w w' \<Longrightarrow> validateProject w' p = validateProject w p"
  "sameSetup w w' \<Longrightarrow> validateTodo w' t = validateTodo w t"
  by (rule validateProject_setup, simp add: sameSetup_def) (rule validateTodo_setup, simp add: sameSetup_def)

text \<open>The outcome of \<open>addTodoToProject\<close> for a todo that is not yet in the project.\<close>

lemma addTodoToProject_new:
  assumes "stable w" "getProjectById w p = Some p0" "getTodoById w t = Some t0"
    "t \<notin> set (p_todoIds p0)"
  shows "(\<exists>e. validateTodo w t0 = Inl e) \<Longrightarrow>
           (\<exists>e. fst (addTodoToProject w p t) = Inl e) \<and>
           getProjects (snd (addTodoToProject w p t)) = getProjects w \<and>
           getTodos (snd (addTodoToProject w p t)) = getTodos w"
    and "validateTodo w t0 = Inr () \<Longrightarrow> (\<exists>e. validateProject w p0 = Inl e) \<Longrightarrow>
           (\<exists>e. fst (addTodoToProject w p t) = Inl e) \<and>
           getProjects (snd (addTodoToProject w p t)) = getProjects w \<and>
           (\<exists>t1. getTodoById (snd (addTodoToProject w p t)) t = Some t1 \<and>
                 validateTodo w t1 = Inr ())"
    and "validateTodo w t0 = Inr () \<Longrightarrow> validateProject w p0 = Inr () \<Longrightarrow>
           (\<exists>project. fst (addTodoToProject w p t) = Inr project \<and>
              p_todoIds project = p_todoIds p0 @ [t] \<and>
              p_progress project =
                projectProgress (snd (updateTodo w t (no_todo_patch\<lparr>tp_projectId := Some (Some p)\<rparr>))) p p0) \<and>
           getTodos (snd (addTodoToProject w p t)) =
             getTodos (snd (updateTodo w t (no_todo_patch\<lparr>tp_projectId := Some (Some p)\<rparr>)))"
    and "stable (snd (addTodoToProject w p t))"
    and "sameSetup w (snd (addTodoToProject w p t))"
proof -
  let ?tp = "no_todo_patch\<lparr>tp_projectId := Some (Some p)\<rparr>"
  let ?pp = "no_project_patch\<lparr>pp_todoIds := Some (p_todoIds p0 @ [t])\<rparr>"
  let ?t1 = "applyTodoPatch t0 ?tp (clock w (ticks w))"
  obtain r1 wa where u1: "updateTodo w t ?tp = (r1, wa)" by (cases "updateTodo w t ?tp")
  obtain r2 wb where u2: "updateProjectProgress wa p = (r2, wb)" by (cases "updateProjectProgress wa p")
  obtain r3 wc where u3: "updateProject wb p ?pp = (r3, wc)" by (cases "updateProject wb p ?pp")
  have a0: "addTodoToProject w p t =
      (case updateTodo w t ?tp of
         (Inl e, w1) \<Rightarrow> (Inl e, w1)
       | (Inr x, w1) \<Rightarrow>
           (case updateProjectProgress w1 p of
              (Inl e, w2) \<Rightarrow> (Inl e, w2)
            | (Inr n, w2) \<Rightarrow> updateProject w2 p ?pp))"
    using assms(2-4) by (simp add: addTodoToProject_def)
  have a: "addTodoToProject w p t =
      (case r1 of Inl e \<Rightarrow> (Inl e, wa)
       | Inr x \<Rightarrow> (case r2 of Inl e \<Rightarrow> (Inl e, wb) | Inr n \<Rightarrow> (r3, wc)))"
    by (cases r1; cases r2; simp add: a0 u1 u2 u3)
  have sa: "stable wa" using updateTodo_some(3) [OF assms(1,3), of ?tp] u1 by simp
  have pa: "getProjects wa = getProjects w" using updateTodo_some(4) [OF assms(1,3), of ?tp] u1 by simp
  have ea: "sameSetup w wa" using updateTodo_some(5) [OF assms(1,3), of ?tp] u1 by simp
  have ga: "getProjectById wa p = Some p0" using assms(2) getById_cong(1) [OF pa] by simp
  have sb: "stable wb" using updateProjectProgress_frame(1) [OF sa, of p] u2 by simp
  have tb: "getTodos wb = getTodos wa" using updateProjectProgress_frame(2) [OF sa, of p] u2 by simp
  have eb: "sameSetup wa wb" using updateProjectProgress_frame(3) [OF sa, of p] u2 by simp
  have sc: "stable wc" using updateProject_frame(1) [OF sb, of p ?pp] u3 by simp
  have ec: "sameSetup wb wc" using updateProject_frame(3) [OF sb, of p ?pp] u3 by simp
  let ?n = "projectProgress wa p p0"
  let ?pn = "no_project_patch\<lparr>pp_progress := Some ?n\<rparr>"
  have r2: "r2 = (case fst (updateProject wa p ?pn) of Inl e \<Rightarrow> Inl e | Inr x \<Rightarrow> Inr ?n)"
    and wb: "wb = snd (updateProject wa p ?pn)"
    using u2 ga by (simp_all add: updateProjectProgress_alt)
  have va: "validateProject wa q = validateProject w q" for q
    using sameSetup_validate(1) [OF ea] .
  show "stable (snd (addTodoToProject w p t))"
    using sa sb sc by (simp add: a split: sum.splits)
  have eb': "sameSetup w wb" using sameSetup_trans [OF ea eb] .
  have ec': "sameSetup w wc" using sameSetup_trans [OF eb' ec] .
  show "sameSetup w (snd (addTodoToProject w p t))"
    using ea eb' ec' by (simp add: a split: sum.splits)
  {
    assume "\<exists>e. validateTodo w t0 = Inl e"
    then have "\<exists>e. validateTodo w ?t1 = Inl e" by (simp add: validate_patched)
    with updateTodo_fail_iff [OF assms(1,3), of ?tp] obtain e where f: "fst (updateTodo w t ?tp) = Inl e"
      by auto
    with u1 have r1: "r1 = Inl e" by simp
    have "getTodos wa = getTodos w" using updateTodo_fail [OF assms(1) f] u1 by simp
    then show "(\<exists>e. fst (addTodoToProject w p t) = Inl e) \<and>
           getProjects (snd (addTodoToProject w p t)) = getProjects w \<and>
           getTodos (snd (addTodoToProject w p t)) = getTodos w"
      using pa by (simp add: a r1)
  }
  {
    assume vt: "validateTodo w t0 = Inr ()"
    then have vt1: "validateTodo w ?t1 = Inr ()" by (simp add: validate_patched)
    from updateTodo_some(2) [OF assms(1,3) vt1] u1
    have r1: "r1 = Inr ?t1" and ta: "getTodoById wa t = Some ?t1" by simp_all
    {
      assume "\<exists>e. validateProject w p0 = Inl e"
      then have "\<exists>e. validateProject wa (applyProjectPatch p0 ?pn p (clock wa (ticks wa))) = Inl e"
        by (simp add: validate_patched va)
      with updateProject_fail_iff [OF sa ga, of ?pn] obtain e
        where f: "fst (updateProject wa p ?pn) = Inl e" by auto
      have pb: "getProjects wb = getProjects wa" using updateProject_fail [OF sa f] wb by simp
      have "getTodoById wb t = Some ?t1" using ta getById_cong(2) [OF tb] by simp
      then show "(\<exists>e. fst (addTodoToProject w p t) = Inl e) \<and>
           getProjects (snd (addTodoToProject w p t)) = getProjects w \<and>
           (\<exists>t1. getTodoById (snd (addTodoToProject w p t)) t = Some t1 \<and>
                 validateTodo w t1 = Inr ())"
        using pa pb f vt1 by (simp add: a r1 r2)
    }
    {
      assume vp: "validateProject w p0 = Inr ()"
      let ?p1 = "applyProjectPatch p0 ?pn p (clock wa (ticks wa))"
      have v1: "validateProject wa ?p1 = Inr ()" using vp by (simp add: validate_patched va)
      from updateProject_some(2) [OF sa ga v1] wb
      have ok: "fst (updateProject wa p ?pn) = Inr ?p1" and gb: "getProjectById wb p = Some ?p1"
        by simp_all
      have vb: "validateProject wb q = validateProject w q" for q
        using sameSetup_validate(1) [OF eb] va by simp
      have "validateProject wb (applyProjectPatch ?p1 ?pp p (clock wb (ticks wb))) = Inr ()"
        using vp by (simp add: validate_patched vb)
      from updateProject_some(2) [OF sb gb this] u3
      have r3: "r3 = Inr (applyProjectPatch ?p1 ?pp p (clock wb (ticks wb)))" by simp
      have tc: "getTodos wc = getTodos wb" using updateProject_frame(2) [OF sb, of p ?pp] u3 by simp
      have wa: "wa = snd (updateTodo w t ?tp)" using u1 by simp
      show "(\<exists>project. fst (addTodoToProject w p t) = Inr project \<and>
              p_todoIds project = p_todoIds p0 @ [t] \<and>
              p_progress project = projectProgress (snd (updateTodo w t ?tp)) p p0) \<and>
           getTodos (snd (addTodoToProject w p t)) = getTodos (snd (updateTodo w t ?tp))"
        using ok tc tb by (simp add: a r1 r2 r3 patched_fields wa [symmetric])
    }
  }
qed


lemma updateProjectProgress_some:
  assumes "stable w" "getProjectById w p = Some p0" "validateProject w p0 = Inr ()"
  shows "fst (updateProjectProgress w p) = Inr (projectProgress w p p0)"
    and "map_option p_progress (getProjectById (snd (updateProjectProgress w p)) p)
           = Some (projectProgress w p p0)"
    and "map_option p_todoIds (getProjectById (snd (updateProjectProgress w p)) p) = Some (p_todoIds p0)"
proof -
  let ?pn = "no_project_patch\<lparr>pp_progress := Some (projectProgress w p p0)\<rparr>"
  have v: "validateProject w (applyProjectPatch p0 ?pn p (clock w (ticks w))) = Inr ()"
    using assms(3) by (simp add: validate_patched)
  note ok = updateProject_some(2) [OF assms(1,2) v]
  show "fst (updateProjectProgress w p) = Inr (projectProgress w p p0)"
    using ok assms(2) by (simp add: updateProjectProgress_alt)
  show "map_option p_progress (getProjectById (snd (updateProjectProgress w p)) p)
           = Some (projectProgress w p p0)"
    using ok assms(2) by (simp add: updateProjectProgress_alt patched_fields)
  show "map_option p_todoIds (getProjectById (snd (updateProjectProgress w p)) p) = Some (p_todoIds p0)"
    using ok assms(2) by (simp add: updateProjectProgress_alt patched_fields)
qed

section \<open>The sample worlds, evaluated\<close>

lemma addWorld_stable: "stable addWorld"
  by (simp add: stable_def localMode_def roomy_def addWorld_def sampleWorld_def)

lemma addWorld_reads:
  "getProjects addWorld = JArr [JProject (sampleProject ''p1'' [] 0)]"
  "getTodos addWorld = JArr [JTodo (sampleTodo ''t1'' ''completed'' None)]"
  by (simp_all add: getProjects_def getTodos_def addWorld_def sampleWorld_def read_eval)

lemma addWorld_byId:
  "getProjectById addWorld ''p1'' = Some (sampleProject ''p1'' [] 0)"
  "getTodoById addWorld ''t1'' = Some (sampleTodo ''t1'' ''completed'' None)"
  by (simp_all add: getProjectById_def getTodoById_def addWorld_reads sampleProject_def sampleTodo_def)

lemma sample_valid:
  "validateTodo w (sampleTodo i st pid) = (if st \<noteq> [] \<and> st \<notin> set [''pending'', ''in-progress'', ''completed'']
      then Inl (Error ''Invalid status'') else Inr ())"
  "validateProject w (sampleProject i ids n) = Inr ()"
  by (simp_all add: validateTodo_def validateTodoFields_def validateProject_def sampleTodo_def
      sampleProject_def trim_def is_space_def truthy_def)



lemma manyWorld_stable: "stable manyWorld"
  by (simp add: stable_def localMode_def roomy_def manyWorld_def sampleWorld_def)

lemma manyWorld_reads:
  "getProjects manyWorld = JArr [JProject (sampleProject ''p1'' (map t_id manyTodos) 0)]"
  "getTodos manyWorld = JArr (map JTodo manyTodos)"
  by (simp_all add: getProjects_def getTodos_def manyWorld_def sampleWorld_def read_eval)

lemma manyWorld_project:
  "getProjectById manyWorld ''p1'' = Some (sampleProject ''p1'' (map t_id manyTodos) 0)"
  by (simp add: getProjectById_def manyWorld_reads sampleProject_def)

lemma manyTodos_counts:
  "length manyTodos = 40"
  "filter (\<lambda>todo. t_projectId todo = Some ''p1'') manyTodos = manyTodos"
  "length (filter (\<lambda>todo. t_status todo = ''completed'') manyTodos) = 23"
  by (simp_all add: manyTodos_def filter_map comp_def sampleTodo_def)

lemma progressPercent_23_40: "progressPercent 23 40 = 57"
  by (simp add: progressPercent_def math_round_def double_times_100_def double_div_def scaled_def
      round_half_even_def bit_length.simps Let_def)

lemma fetch_get_idCount: "fetch_get (w\<lparr>idCount := n\<rparr>) e f = fetch_get w e f"
  by (auto simp add: fetch_get_def routed_def GET_def readData_def split: network.splits)

lemma read_server_idCount: "read_server (w\<lparr>idCount := n\<rparr>) e f = read_server w e f"
  by (auto simp add: read_server_def fetch_get_idCount split: sum.splits response.splits)

lemma read_local_idCount: "read_local (w\<lparr>idCount := n\<rparr>) e f = read_local w e f"
  by (simp add: read_local_def getStorageKey_def basePath_def)

lemma read_idCount [simp]: "read (w\<lparr>idCount := n\<rparr>) e f = read w e f"
  by (simp add: read_def read_server_idCount read_local_idCount cong: flow.case_cong)

lemma stable_idCount [simp]: "stable (w\<lparr>idCount := n\<rparr>) = stable w"
  by (simp add: stable_def localMode_def serverMode_def fallbackMode_def roomy_def)

lemma getTodos_idCount [simp]: "getTodos (w\<lparr>idCount := n\<rparr>) = getTodos w"
  by (simp add: getTodos_def)

lemma createTodo_some:
  assumes "stable w" "validateTodoData w d = Inr ()" "as_array un_todo (getTodos w) = Some ts"
  shows "fst (createTodo w d)
           = Inr (newTodo (idSupply w (idCount w)) d (clock w (ticks w)) (clock w (Suc (ticks w))))"
    and "getTodos (snd (createTodo w d))
           = JArr (map JTodo (ts @ [newTodo (idSupply w (idCount w)) d (clock w (ticks w))
                                      (clock w (Suc (ticks w)))]))"
proof -
  let ?w3 = "w\<lparr>idCount := Suc (idCount w), ticks := Suc (ticks w), ticks := Suc (Suc (ticks w))\<rparr>"
  let ?t = "newTodo (idSupply w (idCount w)) d (clock w (ticks w)) (clock w (Suc (ticks w)))"
  have st: "stable ?w3" using assms(1) by simp
  have st': "stable (w\<lparr>idCount := Suc (idCount w), ticks := Suc (Suc (ticks w))\<rparr>)"
    using assms(1) by simp
  have c: "createTodo w d = (Inr ?t, snd (write ?w3 ''todos'' (JArr (map JTodo (ts @ [?t]))) None))"
    using assms(2,3) st'
    by (simp add: createTodo_def generateId_def newDate_def Let_def case_result write_todos(1))
  show "fst (createTodo w d) = Inr ?t" by (simp add: c)
  show "getTodos (snd (createTodo w d)) = JArr (map JTodo (ts @ [?t]))"
    by (simp only: c snd_conv write_todos(3) [OF st])
qed

lemma sampleClock_values:
  "sampleClock 0 = ''2024-05-01T10:00:00.100Z''"
  "sampleClock (Suc 0) = ''2024-05-01T10:00:00.101Z''"
  by code_simp+

lemma serverWorld_versions: "read serverWorld ''note_versions_n1'' None = Inr (JObj [])"
  by (simp add: serverWorld_def sampleWorld_def read_eval)

lemma progressPercent_1_4: "progressPercent 1 4 = 25"
  by (simp add: progressPercent_def math_round_def double_times_100_def double_div_def scaled_def
      round_half_even_def bit_length.simps Let_def)

lemma projectProgress_empty: "p_todoIds project = [] \<Longrightarrow> projectProgress w p project = 0"
  by (simp add: projectProgress_def)

section \<open>Claims\<close>

subsection \<open>C1: the progress after a change of membership\<close>

text \<open>
  C1 says that after \<open>addTodoToProject\<close> the persisted project has
  \<open>progress = round(100 * completed / todoIds.length)\<close>. \<open>addTodoToProject\<close> (and
  \<open>removeTodoFromProject\<close> in the same way) calls \<open>updateProjectProgress\<close> before it saves
  the new \<open>todoIds\<close>, so the progress is computed against the old list. The theorem
  evaluates the call that adds a completed todo to a project without todos: the persisted
  project has the one todo, which is completed and linked to it, and progress 0, where the
  formula gives 100.
\<close>

theorem addTodoToProject_stale_progress:
  "map_option p_todoIds (getProjectById (snd (addTodoToProject addWorld ''p1'' ''t1'')) ''p1'') = Some [''t1'']
   \<and> map_option p_progress (getProjectById (snd (addTodoToProject addWorld ''p1'' ''t1'')) ''p1'') = Some 0
   \<and> map t_status (getTodosByProject (snd (addTodoToProject addWorld ''p1'' ''t1'')) ''p1'') = [''completed'']
   \<and> roundedPercentage 1 (length [''t1'']) = 100"
proof -
  let ?tp = "no_todo_patch\<lparr>tp_projectId := Some (Some ''p1'')\<rparr>"
  let ?w1 = "snd (addTodoToProject addWorld ''p1'' ''t1'')"
  have notin: "''t1'' \<notin> set (p_todoIds (sampleProject ''p1'' [] 0))" by (simp add: sampleProject_def)
  have vt: "validateTodo addWorld (sampleTodo ''t1'' ''completed'' None) = Inr ()"
    by (simp add: sample_valid)
  have vp: "validateProject addWorld (sampleProject ''p1'' [] 0) = Inr ()" by (simp add: sample_valid)
  from addTodoToProject_new(3) [OF addWorld_stable addWorld_byId notin vt vp]
  obtain project where pr: "fst (addTodoToProject addWorld ''p1'' ''t1'') = Inr project"
    "p_todoIds project = p_todoIds (sampleProject ''p1'' [] 0) @ [''t1'']"
    "p_progress project = projectProgress (snd (updateTodo addWorld ''t1'' ?tp)) ''p1'' (sampleProject ''p1'' [] 0)"
    and ts: "getTodos ?w1 = getTodos (snd (updateTodo addWorld ''t1'' ?tp))"
    by auto
  have "addTodoToProject addWorld ''p1'' ''t1'' = (Inr project, ?w1)"
    using pr(1) by (cases "addTodoToProject addWorld ''p1'' ''t1''") simp
  from addTodoToProject_twice [OF addWorld_stable this]
  have g: "getProjectById ?w1 ''p1'' = Some project" by simp
  have ids: "p_todoIds project = [''t1'']" using pr(2) by (simp add: sampleProject_def)
  have prog: "p_progress project = 0" using pr(3) by (simp add: projectProgress_def sampleProject_def)
  have a: "as_array un_todo (getTodos addWorld) = Some [sampleTodo ''t1'' ''completed'' None]"
    by (simp add: addWorld_reads)
  have i: "findIndex (\<lambda>todo. t_id todo = ''t1'') [sampleTodo ''t1'' ''completed'' None] = Some 0"
    by (simp add: sampleTodo_def)
  let ?t = "applyTodoPatch (sampleTodo ''t1'' ''completed'' None) ?tp (clock addWorld (ticks addWorld))"
  have v: "validateTodo addWorld ?t = Inr ()" by (simp add: validate_patched vt)
  from updateTodo_unfold [OF addWorld_stable a i, of ?tp]
  have u: "snd (updateTodo addWorld ''t1'' ?tp) =
      snd (write (addWorld\<lparr>ticks := Suc (ticks addWorld)\<rparr>) ''todos'' (JArr (map JTodo [?t])) None)"
    using v by (simp add: Let_def)
  have st: "stable (addWorld\<lparr>ticks := Suc (ticks addWorld)\<rparr>)" using addWorld_stable by simp
  have "getTodos ?w1 = JArr (map JTodo [?t])"
    by (simp only: ts u write_todos(3) [OF st])
  then have "getTodosByProject ?w1 ''p1'' = [?t]"
    by (simp add: getTodosByProject_def patched_fields)
  then have sts: "map t_status (getTodosByProject ?w1 ''p1'') = [''completed'']"
    by (simp add: patched_fields sampleTodo_def)
  show ?thesis
    using g ids prog sts by (simp add: roundedPercentage_def)
qed

subsection \<open>C2: the empty value of a read\<close>

text \<open>
  C2 says that a read of a missing resource gives an empty list for every collection,
  the per-note collections \<open>note_versions_<noteId>\<close> included. \<open>read\<close> never throws and
  does return the empty value of the entity on a 404, on an absent item and on an error;
  but \<open>getEmptyDataByEntityType\<close> knows the four collections by name only, and the empty
  value of a \<open>note_versions_<noteId>\<close> entity is the object \<open>{}\<close>. The theorem evaluates
  the read of the versions of a note \<open>n1\<close> that has none, on a server that answers 404 and
  on a \<open>localStorage\<close> without the item.
\<close>

theorem read_note_versions_missing:
  "fetch_get (sampleWorld True Online Map.empty Map.empty) ''note_versions_n1'' None
     = Inr (Response 404 (Some (JObj [(''error'', JStr ''No data found for note_versions_n1'')])))
   \<and> read (sampleWorld True Online Map.empty Map.empty) ''note_versions_n1'' None = Inr (JObj [])
   \<and> localStorage (sampleWorld False Online Map.empty Map.empty) ''taskflow_data_note_versions_n1'' = None
   \<and> read (sampleWorld False Online Map.empty Map.empty) ''note_versions_n1'' None = Inr (JObj [])
   \<and> JObj [] \<noteq> JArr []"
  by (simp add: sampleWorld_def read_def read_server_def read_local_def fetch_get_def routed_def GET_def readData_def
      sanitizedEntity_def entity_char_def truthy_def response_ok_def getStorageKey_def basePath_def
      getEmptyDataByEntityType_def)

subsection \<open>C3: the progress that is computed\<close>

text \<open>
  C3 says that \<open>updateProjectProgress\<close> persists and returns
  \<open>round(100 * completed / total)\<close>. On a working storage and for a stored project that
  validates it returns and persists
  \<open>Math.round((completed / todoIds.length) * 100)\<close> (\<open>updateProjectProgress_some\<close>), which
  is 0 for a project without todos and 25 for one completed todo of four
  (\<open>projectProgress_empty\<close>, \<open>progressPercent_1_4\<close>). The quotient is a rounded double,
  though, and its product with 100 can fall just below a half that the exact percentage
  reaches: for 23 completed todos of 40 the code computes 57.49999999999999 and persists
  57, where \<open>round(57.5)\<close> is 58.
\<close>

theorem updateProjectProgress_rounding:
  "map_option (length \<circ> p_todoIds) (getProjectById manyWorld ''p1'') = Some 40
   \<and> length (filter (\<lambda>todo. t_status todo = ''completed'') (getTodosByProject manyWorld ''p1'')) = 23
   \<and> fst (updateProjectProgress manyWorld ''p1'') = Inr 57
   \<and> map_option p_progress (getProjectById (snd (updateProjectProgress manyWorld ''p1'')) ''p1'') = Some 57
   \<and> roundedPercentage 23 40 = 58"
proof -
  let ?p0 = "sampleProject ''p1'' (map t_id manyTodos) 0"
  have l: "length (p_todoIds ?p0) = 40" by (simp add: sampleProject_def manyTodos_counts)
  have t: "getTodosByProject manyWorld ''p1'' = manyTodos"
    by (simp add: getTodosByProject_def manyWorld_reads manyTodos_counts)
  have n: "projectProgress manyWorld ''p1'' ?p0 = 57"
    by (simp add: projectProgress_def l t manyTodos_counts progressPercent_23_40)
  have vp: "validateProject manyWorld ?p0 = Inr ()" by (simp add: sample_valid)
  note u = updateProjectProgress_some [OF manyWorld_stable manyWorld_project vp]
  show ?thesis
    using u(1,2) l by (simp add: n t manyTodos_counts manyWorld_project roundedPercentage_def)
qed

subsection \<open>C4: deleting an id that is not there\<close>

text \<open>
  C4, as amended. For each of the four collections and every id that no record of the
  stored collection has, the delete operation fails and leaves the whole state as it was:
  nothing is written. \<open>deleteTodo\<close> and \<open>deleteProject\<close> fail with the not-found error
  itself; \<open>deleteNote\<close> and \<open>deleteNotification\<close> catch it and fail with their fixed
  errors \<open>Failed to delete note\<close> and \<open>Failed to delete notification\<close>.
\<close>

theorem delete_missing:
  "(as_array un_todo (getTodos w) = Some todos \<and> ident \<notin> set (map t_id todos) \<longrightarrow>
      deleteTodo w ident = (Inl (notFound ''Todo'' ident), w))
   \<and> (as_array un_project (getProjects w) = Some projects \<and> ident \<notin> set (map p_id projects) \<longrightarrow>
      deleteProject w ident = (Inl (notFound ''Project'' ident), w))
   \<and> (getNotes w = Inr d \<and> as_array un_note d = Some notes \<and> ident \<notin> set (map n_id notes) \<longrightarrow>
      deleteNote w ident = (Inl (Error ''Failed to delete note''), w))
   \<and> (as_array un_notification (getNotifications w) = Some notifications \<and>
        ident \<notin> set (map nd_id notifications) \<longrightarrow>
      deleteNotification w ident = (Inl (Error ''Failed to delete notification''), w))
   \<and> isNotFoundError (notFound ''Todo'' ident) \<and> isNotFoundError (notFound ''Project'' ident)"
proof (intro conjI impI)
  assume "as_array un_todo (getTodos w) = Some todos \<and> ident \<notin> set (map t_id todos)"
  then show "deleteTodo w ident = (Inl (notFound ''Todo'' ident), w)"
    using filter_absent [of ident t_id todos] by (simp add: deleteTodo_def Let_def)
next
  assume "as_array un_project (getProjects w) = Some projects \<and> ident \<notin> set (map p_id projects)"
  then show "deleteProject w ident = (Inl (notFound ''Project'' ident), w)"
    using filter_absent [of ident p_id projects] by (simp add: deleteProject_def Let_def)
next
  assume "getNotes w = Inr d \<and> as_array un_note d = Some notes \<and> ident \<notin> set (map n_id notes)"
  then show "deleteNote w ident = (Inl (Error ''Failed to delete note''), w)"
    using filter_absent [of ident n_id "notes"] by (simp add: deleteNote_def Let_def)
next
  assume "as_array un_notification (getNotifications w) = Some notifications \<and>
        ident \<notin> set (map nd_id notifications)"
  then show "deleteNotification w ident = (Inl (Error ''Failed to delete notification''), w)"
    using filter_absent [of ident nd_id notifications] by (simp add: deleteNotification_def Let_def)
qed (rule notFound_isNotFound)+

text \<open>The theorem on a server that holds one record of each collection, deleting the id \<open>zz\<close>.\<close>

theorem delete_missing_witness:
  "as_array un_todo (getTodos serverWorld) = Some [sampleTodo ''t1'' ''pending'' None]
   \<and> ''zz'' \<notin> set (map t_id [sampleTodo ''t1'' ''pending'' None])
   \<and> deleteTodo serverWorld ''zz'' = (Inl (notFound ''Todo'' ''zz''), serverWorld)
   \<and> as_array un_project (getProjects serverWorld) = Some [sampleProject ''p1'' [] 0]
   \<and> ''zz'' \<notin> set (map p_id [sampleProject ''p1'' [] 0])
   \<and> deleteProject serverWorld ''zz'' = (Inl (notFound ''Project'' ''zz''), serverWorld)
   \<and> getNotes serverWorld = Inr (JArr [JNote (sampleNote ''n1'')])
   \<and> as_array un_note (JArr [JNote (sampleNote ''n1'')]) = Some [sampleNote ''n1'']
   \<and> ''zz'' \<notin> set (map n_id [sampleNote ''n1''])
   \<and> deleteNote serverWorld ''zz'' = (Inl (Error ''Failed to delete note''), serverWorld)
   \<and> as_array un_notification (getNotifications serverWorld) = Some [sampleNotification ''m1'']
   \<and> ''zz'' \<notin> set (map nd_id [sampleNotification ''m1''])
   \<and> deleteNotification serverWorld ''zz'' = (Inl (Error ''Failed to delete notification''), serverWorld)"
  using delete_missing [of serverWorld "[sampleTodo ''t1'' ''pending'' None]" "''zz''"
      "[sampleProject ''p1'' [] 0]" "JArr [JNote (sampleNote ''n1'')]" "[sampleNote ''n1'']"
      "[sampleNotification ''m1'']"]
  by (simp add: serverWorld_reads sampleTodo_def sampleProject_def sampleNote_def sampleNotification_def)

text \<open>
  As stated, the claim promises a not-found error from every collection. The error that
  reaches the caller of \<open>deleteNote\<close> and of \<open>deleteNotification\<close> is the fixed error of
  their \<open>catch\<close> blocks, the same as for a failed write.
\<close>

theorem deleteNote_missing_counterexample:
  "fst (deleteNote serverWorld ''zz'') = Inl (Error ''Failed to delete note'')
   \<and> \<not> isNotFoundError (Error ''Failed to delete note'')
   \<and> fst (deleteNotification serverWorld ''zz'') = Inl (Error ''Failed to delete notification'')
   \<and> \<not> isNotFoundError (Error ''Failed to delete notification'')"
  by (simp add: deleteNote_def deleteNotification_def serverWorld_reads Let_def isNotFoundError_def
      sampleNote_def sampleNotification_def)

subsection \<open>C5: the first update of a note\<close>

text \<open>
  C5 says that \<open>updateNote\<close>, for every existing note, appends the old content to the
  note's version collection and then persists the note with the next version.
  For a note without stored versions the collection is read as \<open>{}\<close> (see C2);
  \<open>createNoteVersion\<close> spreads it into an array, which throws, and \<open>updateNote\<close> fails
  with \<open>Failed to update note\<close> before anything is written. Nothing but
  \<open>createNoteVersion\<close> (and the deletion of a note) ever writes that collection, so this is
  the state of every note that has not been updated yet. The theorem evaluates the first
  update of a stored note.
\<close>

theorem updateNote_first_update_fails:
  "getNotes serverWorld = Inr (JArr [JNote (sampleNote ''n1'')])
   \<and> getNoteVersions serverWorld ''n1'' = JObj []
   \<and> fst (updateNote serverWorld ''n1'' (no_note_patch\<lparr>npt_content := Some ''second draft''\<rparr>))
       = Inl (Error ''Failed to update note'')
   \<and> getNotes (snd (updateNote serverWorld ''n1'' (no_note_patch\<lparr>npt_content := Some ''second draft''\<rparr>)))
       = Inr (JArr [JNote (sampleNote ''n1'')])
   \<and> getNoteVersions (snd (updateNote serverWorld ''n1'' (no_note_patch\<lparr>npt_content := Some ''second draft''\<rparr>))) ''n1''
       = JObj []"
proof -
  have f: "findIndex (\<lambda>n. n_id n = ''n1'') [sampleNote ''n1''] = Some 0"
    by (simp add: sampleNote_def)
  have u: "updateNote serverWorld ''n1'' (no_note_patch\<lparr>npt_content := Some ''second draft''\<rparr>)
      = (Inl (Error ''Failed to update note''),
         serverWorld\<lparr>ticks := Suc (ticks serverWorld), idCount := Suc (idCount serverWorld)\<rparr>)"
    by (simp add: updateNote_def serverWorld_reads f newDate_def createNoteVersion_def
        getNoteVersions_def serverWorld_versions generateId_def Let_def sampleNote_def)
  show ?thesis
    using serverWorld_reads(3) by (simp add: u getNoteVersions_def serverWorld_versions getNotes_def)
qed

subsection \<open>C6: quiet hours\<close>

text \<open>
  C6, as amended. \<open>isInQuietHours\<close> converts a start and an end written \<open>HH:MM\<close> to
  minutes of the day and tests whether the current minute lies in the closed interval
  between them, an interval whose start is after its end spanning midnight. With start
  \<open>22:00\<close> and end \<open>06:00\<close>, 23:30 and 03:00 are in quiet hours and 12:00 is not. A start
  or end that is missing or empty, or that does not split at \<open>:\<close> into exactly two parts,
  gives "not in quiet hours".
\<close>

theorem isInQuietHours_spec:
  "(h1 < 100 \<and> m1 < 100 \<and> h2 < 100 \<and> m2 < 100 \<longrightarrow>
      isInQuietHours (p\<lparr>quietHoursStart := Some (hhmm h1 m1), quietHoursEnd := Some (hhmm h2 m2)\<rparr>) H M
      = inInterval (60 * int h1 + int m1) (60 * int h2 + int m2) (60 * int H + int M))
   \<and> isInQuietHours (p\<lparr>quietHoursStart := Some ''22:00'', quietHoursEnd := Some ''06:00''\<rparr>) 23 30
   \<and> isInQuietHours (p\<lparr>quietHoursStart := Some ''22:00'', quietHoursEnd := Some ''06:00''\<rparr>) 3 0
   \<and> \<not> isInQuietHours (p\<lparr>quietHoursStart := Some ''22:00'', quietHoursEnd := Some ''06:00''\<rparr>) 12 0
   \<and> (\<not> truthy (quietHoursStart p) \<or> \<not> truthy (quietHoursEnd p) \<longrightarrow> \<not> isInQuietHours p H M)
   \<and> (quietHoursStart p = Some s \<and> quietHoursEnd p = Some e \<and>
        (length (split_on CHR '':'' s) \<noteq> 2 \<or> length (split_on CHR '':'' e) \<noteq> 2)
        \<longrightarrow> \<not> isInQuietHours p H M)"
proof (intro conjI impI)
  assume "h1 < 100 \<and> m1 < 100 \<and> h2 < 100 \<and> m2 < 100"
  then show "isInQuietHours (p\<lparr>quietHoursStart := Some (hhmm h1 m1), quietHoursEnd := Some (hhmm h2 m2)\<rparr>) H M
      = inInterval (60 * int h1 + int m1) (60 * int h2 + int m2) (60 * int H + int M)"
    by (simp add: isInQuietHours_hhmm)
next
  show "isInQuietHours (p\<lparr>quietHoursStart := Some ''22:00'', quietHoursEnd := Some ''06:00''\<rparr>) 23 30"
    by (simp add: qh_eval)
next
  show "isInQuietHours (p\<lparr>quietHoursStart := Some ''22:00'', quietHoursEnd := Some ''06:00''\<rparr>) 3 0"
    by (simp add: qh_eval)
next
  show "\<not> isInQuietHours (p\<lparr>quietHoursStart := Some ''22:00'', quietHoursEnd := Some ''06:00''\<rparr>) 12 0"
    by (simp add: qh_eval)
next
  assume "\<not> truthy (quietHoursStart p) \<or> \<not> truthy (quietHoursEnd p)"
  then show "\<not> isInQuietHours p H M" by (auto simp add: isInQuietHours_def)
next
  assume "quietHoursStart p = Some s \<and> quietHoursEnd p = Some e \<and>
        (length (split_on CHR '':'' s) \<noteq> 2 \<or> length (split_on CHR '':'' e) \<noteq> 2)"
  then show "\<not> isInQuietHours p H M" by (auto simp add: isInQuietHours_def Let_def)
qed

text \<open>
  The theorem at 22:00 to 06:00 checked at 23:30, at the default preferences (no quiet
  hours), and at a start without a colon.
\<close>

theorem isInQuietHours_spec_witness:
  "((22::nat) < 100 \<and> (0::nat) < 100 \<and> (6::nat) < 100 \<and> (0::nat) < 100)
   \<and> isInQuietHours (getDefaultPreferences\<lparr>quietHoursStart := Some (hhmm 22 0), quietHoursEnd := Some (hhmm 6 0)\<rparr>) 23 30
       = inInterval 1320 360 1410
   \<and> inInterval 1320 360 1410
   \<and> \<not> truthy (quietHoursStart getDefaultPreferences)
   \<and> \<not> isInQuietHours getDefaultPreferences 23 30
   \<and> quietHoursStart (getDefaultPreferences\<lparr>quietHoursStart := Some ''22'', quietHoursEnd := Some ''06:00''\<rparr>) = Some ''22''
   \<and> length (split_on CHR '':'' ''22'') \<noteq> 2
   \<and> \<not> isInQuietHours (getDefaultPreferences\<lparr>quietHoursStart := Some ''22'', quietHoursEnd := Some ''06:00''\<rparr>) 23 30"
  using isInQuietHours_spec [of 22 0 6 0 getDefaultPreferences 23 30 "''22''" "''06:00''"]
    isInQuietHours_spec [of 22 0 6 0 "getDefaultPreferences\<lparr>quietHoursStart := Some ''22'', quietHoursEnd := Some ''06:00''\<rparr>" 23 30 "''22''" "''06:00''"]
  by (simp add: getDefaultPreferences_def truthy_def inInterval_def)

text \<open>
  The claim as stated also promises "not in quiet hours" for every malformed start or end.
  A start whose two parts are no numbers parses to \<open>NaN\<close>; every comparison with \<open>NaN\<close> is
  false, so the test falls into the branch for intervals spanning midnight and compares the
  current minute with the end alone: at 03:00, with start \<open>ab:cd\<close> and end \<open>06:00\<close>, the
  answer is "in quiet hours".
\<close>

theorem isInQuietHours_malformed_counterexample:
  "isInQuietHours (getDefaultPreferences\<lparr>quietHoursStart := Some ''ab:cd'', quietHoursEnd := Some ''06:00''\<rparr>) 3 0"
  by (simp add: qh_eval getDefaultPreferences_def)

subsection \<open>C7: the fallback to local storage\<close>

text \<open>
  C7 says that \<open>write\<close>, when the server write fails and the fallback is enabled, stores
  the data under the entity's \<open>localStorage\<close> key, emits a warning and returns normally,
  for every entity and data value. The block that writes to \<open>localStorage\<close> is inside the
  outer \<open>try\<close> of \<open>write\<close>, whose \<open>catch\<close> throws \<open>Failed to save <entity> data\<close>: when
  \<open>localStorage\<close> is full (or denied), \<open>setItem\<close> throws and so does \<open>write\<close>. So here
  \<open>write\<close> fails although the fallback is enabled, with a store that takes nothing.
\<close>

theorem write_fallback_refused_counterexample:
  "isClient fullWorld \<and> useServerStorage (config fullWorld) \<and> fallbackToLocalStorage (config fullWorld)
   \<and> post_fails fullWorld ''todos'' None (JArr [])
   \<and> fst (write fullWorld ''todos'' (JArr []) None) = Inl (Error ''Failed to save todos data'')
   \<and> localStorage (snd (write fullWorld ''todos'' (JArr []) None)) ''taskflow_data_todos'' = None"
  by (simp add: fullWorld_def sampleWorld_def post_fails_def fetch_post_def write_def write_core_def
      write_server_def write_local_def setItem_def getStorageKey_def basePath_def truthy_def
      raw_truthy_def Let_def)

text \<open>
  C7, with what the code adds. For every entity, data value and file name: when the client
  is in the browser, server storage and the fallback are enabled and the server write
  fails (\<open>fetch\<close> rejects or the response is not \<open>ok\<close>), the warning toast has been
  emitted. If \<open>localStorage\<close> takes the backup copy of the entity's old value and the
  data, \<open>write\<close> returns normally and its body has stored the data under the entity's
  key; the data is still there after the metadata update that \<open>write\<close> starts, unless the
  entity's key is the key under which that update backs up the metadata. If
  \<open>localStorage\<close> does not take them, \<open>write\<close> throws \<open>Failed to save <entity> data\<close> and
  the entity's item is what it was.
\<close>

theorem write_fallback:
  assumes "isClient w" "useServerStorage (config w)" "fallbackToLocalStorage (config w)"
    and "post_fails w entity filename d"
  shows "storageWarning \<in> set (toasts (snd (write w entity d filename)))
       \<and> (accepted w (getStorageKey w entity filename) (Text d) \<longrightarrow>
            fst (write w entity d filename) = Inr ()
          \<and> localStorage (snd (write_core w entity d filename)) (getStorageKey w entity filename) = Some (Text d)
          \<and> (getStorageKey w entity filename \<noteq> getStorageKey w ''metadata'' None @ ''_backup'' \<longrightarrow>
               localStorage (snd (write w entity d filename)) (getStorageKey w entity filename) = Some (Text d)))
       \<and> (\<not> accepted w (getStorageKey w entity filename) (Text d) \<longrightarrow>
            fst (write w entity d filename) = Inl (Error (''Failed to save '' @ entity @ '' data''))
          \<and> localStorage (snd (write w entity d filename)) (getStorageKey w entity filename)
              = localStorage w (getStorageKey w entity filename))"
proof -
  let ?w0 = "w\<lparr>toasts := toasts w @ [storageWarning]\<rparr>"
  let ?w1 = "snd (write_core w entity d filename)"
  let ?k = "getStorageKey w entity filename"
  have wc: "write_core w entity d filename =
      (case write_local ?w0 entity d filename of
         (Inl e, w2) \<Rightarrow> (Inl (Error (''Failed to save '' @ entity @ '' data'')), w2)
       | (Inr u, w2) \<Rightarrow> (Inr (), w2))"
    using write_core_fallback [OF assms] fetch_post_fails_same [OF assms(4)] by simp
  have w1: "?w1 = snd (write_local ?w0 entity d filename)"
    by (simp add: wc case_write_local)
  have f1: "fst (write_core w entity d filename) =
      (case fst (write_local ?w0 entity d filename) of
         Inl e \<Rightarrow> Inl (Error (''Failed to save '' @ entity @ '' data'')) | Inr u \<Rightarrow> Inr ())"
    by (simp add: wc case_write_local)
  have k0: "getStorageKey ?w0 entity filename = ?k" by simp
  have warned: "storageWarning \<in> set (toasts ?w1)"
    by (simp add: w1 write_local_local)
  have s: "sameSetup w ?w1" by (rule write_core_setup)
  have k: "getStorageKey ?w1 ''metadata'' None = getStorageKey w ''metadata'' None"
    using s by (simp add: sameSetup_key)
  have t: "storageWarning \<in> set (toasts (snd (write w entity d filename)))"
    using warned updateMetadata_toasts [of ?w1]
    by (auto simp add: write_alt split: sum.splits)
  have yes: "fst (write w entity d filename) = Inr ()
          \<and> localStorage ?w1 ?k = Some (Text d)
          \<and> (?k \<noteq> getStorageKey w ''metadata'' None @ ''_backup'' \<longrightarrow>
               localStorage (snd (write w entity d filename)) ?k = Some (Text d))"
    if a: "accepted w ?k (Text d)"
  proof -
    have a0: "accepted ?w0 (getStorageKey ?w0 entity filename) (Text d)" using a by simp
    have f: "fst (write_core w entity d filename) = Inr ()"
      using write_local_accepted(1) [OF a0] by (simp add: f1)
    have stored: "localStorage ?w1 ?k = Some (Text d)"
      using write_local_accepted(2) [OF a0] by (simp add: w1)
    show ?thesis
    proof (cases "entity = ''metadata''")
      case True
      then have "write w entity d filename = (Inr (), ?w1)"
        using f by (simp add: write_alt)
      then show ?thesis using stored by simp
    next
      case False
      have w: "write w entity d filename = (Inr (), updateMetadata ?w1)"
        using False assms(1) f by (simp add: write_alt)
      have l: "?k \<noteq> getStorageKey w ''metadata'' None @ ''_backup'' \<Longrightarrow>
          localStorage (updateMetadata ?w1) ?k = Some (Text d)"
        using updateMetadata_localStorage [of ?k ?w1]
          key_not_metadata [OF False, of w filename] stored
        by (simp add: k)
      show ?thesis using stored l by (simp add: w)
    qed
  qed
  have no: "fst (write w entity d filename) = Inl (Error (''Failed to save '' @ entity @ '' data''))
          \<and> localStorage (snd (write w entity d filename)) ?k = localStorage w ?k"
    if a: "\<not> accepted w ?k (Text d)"
  proof -
    have a0: "\<not> accepted ?w0 (getStorageKey ?w0 entity filename) (Text d)" using a by simp
    have f: "fst (write_core w entity d filename) = Inl (Error (''Failed to save '' @ entity @ '' data''))"
      using write_local_refused(1) [OF a0] by (simp add: f1)
    have same: "localStorage ?w1 ?k = localStorage w ?k"
      using write_local_refused(2) [OF a0] by (simp add: w1)
    show ?thesis using f same by (simp add: write_alt)
  qed
  show ?thesis using t yes no by blast
qed

text \<open>
  The theorem at an unreachable server, writing an empty list of todos: to a
  \<open>localStorage\<close> that takes every item, and to one that takes none.
\<close>

theorem write_fallback_witness:
  "isClient (sampleWorld True Offline Map.empty Map.empty)
   \<and> useServerStorage (config (sampleWorld True Offline Map.empty Map.empty))
   \<and> fallbackToLocalStorage (config (sampleWorld True Offline Map.empty Map.empty))
   \<and> post_fails (sampleWorld True Offline Map.empty Map.empty) ''todos'' None (JArr [])
   \<and> accepted (sampleWorld True Offline Map.empty Map.empty) ''taskflow_data_todos'' (Text (JArr []))
   \<and> getStorageKey (sampleWorld True Offline Map.empty Map.empty) ''todos'' None
        \<noteq> getStorageKey (sampleWorld True Offline Map.empty Map.empty) ''metadata'' None @ ''_backup''
   \<and> fst (write (sampleWorld True Offline Map.empty Map.empty) ''todos'' (JArr []) None) = Inr ()
   \<and> storageWarning \<in> set (toasts (snd (write (sampleWorld True Offline Map.empty Map.empty) ''todos'' (JArr []) None)))
   \<and> localStorage (snd (write (sampleWorld True Offline Map.empty Map.empty) ''todos'' (JArr []) None))
        ''taskflow_data_todos'' = Some (Text (JArr []))
   \<and> isClient fullWorld \<and> useServerStorage (config fullWorld) \<and> fallbackToLocalStorage (config fullWorld)
   \<and> post_fails fullWorld ''todos'' None (JArr [])
   \<and> \<not> accepted fullWorld ''taskflow_data_todos'' (Text (JArr []))
   \<and> fst (write fullWorld ''todos'' (JArr []) None) = Inl (Error ''Failed to save todos data'')
   \<and> storageWarning \<in> set (toasts (snd (write fullWorld ''todos'' (JArr []) None)))
   \<and> localStorage (snd (write fullWorld ''todos'' (JArr []) None)) ''taskflow_data_todos'' = None"
proof -
  let ?w = "sampleWorld True Offline Map.empty Map.empty"
  have h: "isClient ?w" "useServerStorage (config ?w)" "fallbackToLocalStorage (config ?w)"
    "post_fails ?w ''todos'' None (JArr [])"
    by (simp_all add: sampleWorld_def post_fails_def fetch_post_def)
  have a: "accepted ?w ''taskflow_data_todos'' (Text (JArr []))"
    by (simp add: accepted_def sampleWorld_def raw_truthy_def)
  have g: "isClient fullWorld" "useServerStorage (config fullWorld)" "fallbackToLocalStorage (config fullWorld)"
    "post_fails fullWorld ''todos'' None (JArr [])"
    by (simp_all add: fullWorld_def sampleWorld_def post_fails_def fetch_post_def)
  have b: "\<not> accepted fullWorld ''taskflow_data_todos'' (Text (JArr []))"
    by (simp add: accepted_def fullWorld_def sampleWorld_def raw_truthy_def)
  have e: "localStorage fullWorld ''taskflow_data_todos'' = None"
    by (simp add: fullWorld_def sampleWorld_def)
  show ?thesis
    using write_fallback [OF h] write_fallback [OF g] h g a b e by (simp add: sample_keys)
qed

subsection \<open>C8: adding a todo to a project twice\<close>



subsection \<open>C9: the dates of a new todo\<close>

text \<open>
  C9 says that the record that \<open>createTodo\<close> returns and persists has
  \<open>createdAt\<close> equal to \<open>updatedAt\<close>. \<open>createTodo\<close> reads the clock once for each
  (\<open>createTodo_some\<close>), where \<open>createNote\<close> and \<open>createProject\<close> read it once for both. The
  theorem evaluates \<open>createTodo\<close> on a valid input with a clock that advances by a
  millisecond between the two reads.
\<close>

theorem createTodo_two_clock_reads:
  "validateTodoData todoWorld sampleTodoData = Inr ()
   \<and> clock todoWorld (ticks todoWorld) = ''2024-05-01T10:00:00.100Z''
   \<and> clock todoWorld (Suc (ticks todoWorld)) = ''2024-05-01T10:00:00.101Z''
   \<and> map_sum id t_createdAt (fst (createTodo todoWorld sampleTodoData)) = Inr ''2024-05-01T10:00:00.100Z''
   \<and> map_sum id t_updatedAt (fst (createTodo todoWorld sampleTodoData)) = Inr ''2024-05-01T10:00:00.101Z''
   \<and> map_option (map (\<lambda>t. (t_createdAt t, t_updatedAt t)))
        (as_array un_todo (getTodos (snd (createTodo todoWorld sampleTodoData))))
       = Some [(''2024-04-01T09:00:00.000Z'', ''2024-04-01T09:00:00.000Z''),
               (''2024-04-01T09:00:00.000Z'', ''2024-04-01T09:00:00.000Z''),
               (''2024-05-01T10:00:00.100Z'', ''2024-05-01T10:00:00.101Z'')]"
proof -
  have v: "validateTodoData todoWorld sampleTodoData = Inr ()"
    by (simp add: validateTodoData_def validateTodoFields_def sampleTodoData_def trim_def is_space_def
        truthy_def)
  have a: "as_array un_todo (getTodos todoWorld)
        = Some [sampleTodo ''t1'' ''pending'' None, sampleTodo ''t2'' ''pending'' None]"
    by (simp add: todoWorld_todos)
  have c: "clock todoWorld = sampleClock" "ticks todoWorld = 0"
    by (simp_all add: todoWorld_def sampleWorld_def)
  note r = createTodo_some [OF todoWorld_stable v a]
  show ?thesis
    using v by (simp add: r c sampleClock_values newTodo_def sampleTodo_def)
qed

subsection \<open>C10: what an update of a todo leaves alone\<close>



end
